theory Spec2Isabelle
  imports Complex_Main "HOL-Library.AList"
begin

section \<open>Python values shared by both modules\<close>

text \<open>
  Exceptions are values. The payload is the message where the source builds one from its
  arguments; \<open>Raised\<close> stands for whatever an external collaborator raises.
\<close>

datatype exn =
    Exception string
  | ValueError string
  | NameError string
  | IndexError string
  | AttributeError string
  | Raised string

fun is_ValueError :: "exn \<Rightarrow> bool" where
  "is_ValueError (ValueError m) = True"
| "is_ValueError e = False"

section \<open>cleanlab/datalab/internal/issue\_manager\_factory.py\<close>

subsection \<open>Data model\<close>

text \<open>
  A class object handed to the factory. \<open>issubclass(cls, IssueManager)\<close> is the flag
  \<open>subclass_of_IssueManager\<close>; \<open>cls.issue_name\<close> may be missing (\<open>None\<close>), and where
  present the field holds \<open>str(cls.issue_name)\<close>; \<open>cls_repr\<close> is what \<open>{cls}\<close>
  formats to inside an f-string.
\<close>

record issue_manager_class =
  cls_repr :: string
  subclass_of_IssueManager :: bool
  issue_name :: "string option"

text \<open>
  A Python \<open>dict\<close> keeps insertion order and holds each key once: an association list
  read with \<open>map_of\<close> and written with \<open>AList.update\<close> (which replaces the value of a
  present key in place and appends an absent one).
\<close>

type_synonym registry = "(string \<times> (string \<times> issue_manager_class) list) list"

definition OutlierIssueManager :: issue_manager_class where
  "OutlierIssueManager =
     \<lparr>cls_repr = ''<class OutlierIssueManager>'', subclass_of_IssueManager = True,
      issue_name = Some ''outlier''\<rparr>"

definition LabelIssueManager :: issue_manager_class where
  "LabelIssueManager =
     \<lparr>cls_repr = ''<class LabelIssueManager>'', subclass_of_IssueManager = True,
      issue_name = Some ''label''\<rparr>"

definition NearDuplicateIssueManager :: issue_manager_class where
  "NearDuplicateIssueManager =
     \<lparr>cls_repr = ''<class NearDuplicateIssueManager>'', subclass_of_IssueManager = True,
      issue_name = Some ''near_duplicate''\<rparr>"

definition NonIIDIssueManager :: issue_manager_class where
  "NonIIDIssueManager =
     \<lparr>cls_repr = ''<class NonIIDIssueManager>'', subclass_of_IssueManager = True,
      issue_name = Some ''non_iid''\<rparr>"

definition ClassImbalanceIssueManager :: issue_manager_class where
  "ClassImbalanceIssueManager =
     \<lparr>cls_repr = ''<class ClassImbalanceIssueManager>'', subclass_of_IssueManager = True,
      issue_name = Some ''class_imbalance''\<rparr>"

definition DataValuationIssueManager :: issue_manager_class where
  "DataValuationIssueManager =
     \<lparr>cls_repr = ''<class DataValuationIssueManager>'', subclass_of_IssueManager = True,
      issue_name = Some ''data_valuation''\<rparr>"

definition RegressionLabelIssueManager :: issue_manager_class where
  "RegressionLabelIssueManager =
     \<lparr>cls_repr = ''<class RegressionLabelIssueManager>'', subclass_of_IssueManager = True,
      issue_name = Some ''label''\<rparr>"

text \<open>The module-level \<open>REGISTRY\<close> literal (lines 54-66).\<close>

definition REGISTRY_initial :: registry where
  "REGISTRY_initial =
     [(''classification'',
         [(''outlier'', OutlierIssueManager),
          (''label'', LabelIssueManager),
          (''near_duplicate'', NearDuplicateIssueManager),
          (''non_iid'', NonIIDIssueManager),
          (''class_imbalance'', ClassImbalanceIssueManager),
          (''data_valuation'', DataValuationIssueManager)]),
      (''regression'',
         [(''label'', RegressionLabelIssueManager)])]"

text \<open>
  The module's mutable state: the global \<open>REGISTRY\<close> and, since \<open>register\<close> prints,
  the lines written to standard output so far.
\<close>

record factory_state =
  REGISTRY :: registry
  stdout :: "string list"

text \<open>
  \<open>from_str\<close> is annotated \<open>issue_type: str\<close> but tests \<open>isinstance(issue_type, list)\<close>
  first, so a caller can pass either.
\<close>

datatype issue_type_arg = IssueStr string | IssueList "string list"

subsection \<open>Operations\<close>

text \<open>
  \<open>repr\<close> of a list of strings, as \<open>{list(REGISTRY.keys())}\<close> formats it; exact for
  keys that hold no quote or escape character.
\<close>

fun py_join :: "string \<Rightarrow> string list \<Rightarrow> string" where
  "py_join sep [] = []"
| "py_join sep [x] = x"
| "py_join sep (x # y # ys) = x @ sep @ py_join sep (y # ys)"

definition py_repr_str_list :: "string list \<Rightarrow> string" where
  "py_repr_str_list ks = ''['' @ py_join '', '' (map (\<lambda>k. [CHR 39] @ k @ [CHR 39]) ks) @ '']''"

text \<open>\<open>_IssueManagerFactory.from_str\<close> (lines 88-101).\<close>

definition from_str :: "registry \<Rightarrow> issue_type_arg \<Rightarrow> string \<Rightarrow> exn + issue_manager_class" where
  "from_str reg issue_type task =
     (case issue_type of
        IssueList l \<Rightarrow>
          Inl (ValueError ''issue_type must be a string, not a list. Try using from_list instead.'')
      | IssueStr it \<Rightarrow>
          (case map_of reg task of
             None \<Rightarrow>
               Inl (ValueError (''Invalid task type: '' @ task @ '', must be in ''
                                 @ py_repr_str_list (map fst reg)))
           | Some d \<Rightarrow>
               (case map_of d it of
                  None \<Rightarrow> Inl (ValueError (''Invalid issue type: '' @ it @ '' for task '' @ task))
                | Some c \<Rightarrow> Inr c)))"

text \<open>
  \<open>_IssueManagerFactory.from_list\<close> (lines 103-106): the comprehension stops at the first
  element for which \<open>from_str\<close> raises.
\<close>

fun from_list :: "registry \<Rightarrow> string list \<Rightarrow> string \<Rightarrow> exn + issue_manager_class list" where
  "from_list reg [] task = Inr []"
| "from_list reg (it # its) task =
     (case from_str reg (IssueStr it) task of
        Inl e \<Rightarrow> Inl e
      | Inr c \<Rightarrow> (case from_list reg its task of Inl e \<Rightarrow> Inl e | Inr cs \<Rightarrow> Inr (c # cs)))"

text \<open>
  \<open>register\<close> (lines 161-176). Every \<open>raise\<close> comes before the first write, so an error
  leaves the state as it was and only the success case returns a new state.
\<close>

definition overwrite_warning :: "string \<Rightarrow> issue_manager_class \<Rightarrow> string \<Rightarrow> string" where
  "overwrite_warning name cls task =
     ''Warning: Overwriting existing issue manager '' @ name @ '' with '' @ cls_repr cls
       @ '' for task '' @ task @ ''.This may cause unexpected behavior.''"

definition register ::
  "issue_manager_class \<Rightarrow> string \<Rightarrow> factory_state \<Rightarrow> exn + (issue_manager_class \<times> factory_state)"
where
  "register cls task st =
     (if \<not> subclass_of_IssueManager cls then
        Inl (ValueError (''Class '' @ cls_repr cls @ '' must be a subclass of IssueManager''))
      else
        (case issue_name cls of
           None \<Rightarrow> Inl (AttributeError ''issue_name'')
         | Some name \<Rightarrow>
             (case map_of (REGISTRY st) task of
                None \<Rightarrow>
                  Inl (ValueError (''Invalid task type: '' @ task @ '', must be in ''
                                    @ py_repr_str_list (map fst (REGISTRY st))))
              | Some d \<Rightarrow>
                  (let out = (if map_of d name \<noteq> None
                              then stdout st @ [overwrite_warning name cls task]
                              else stdout st)
                   in Inr (cls,
                           st\<lparr>REGISTRY := AList.update task (AList.update name cls d) (REGISTRY st),
                              stdout := out\<rparr>)))))"

text \<open>\<open>list_possible_issue_types\<close> (lines 179-188): \<open>list(REGISTRY.get(task, []))\<close>.\<close>

definition list_possible_issue_types :: "registry \<Rightarrow> string \<Rightarrow> string list" where
  "list_possible_issue_types reg task =
     (case map_of reg task of None \<Rightarrow> [] | Some d \<Rightarrow> map fst d)"

text \<open>\<open>list_default_issue_types\<close> (lines 191-208).\<close>

definition list_default_issue_types :: "string \<Rightarrow> string list" where
  "list_default_issue_types task =
     (if task = ''regression'' then [''label'']
      else [''label'', ''outlier'', ''near_duplicate'', ''non_iid''])"

text \<open>A class of the kind the test file registers, under a name already taken.\<close>

definition MyOutlierManager :: issue_manager_class where
  "MyOutlierManager =
     \<lparr>cls_repr = ''<class MyOutlierManager>'', subclass_of_IssueManager = True,
      issue_name = Some ''outlier''\<rparr>"

definition factory_initial :: factory_state where
  "factory_initial = \<lparr>REGISTRY = REGISTRY_initial, stdout = []\<rparr>"

section \<open>cleanlab/classification.py\<close>

subsection \<open>NumPy numbers and arrays\<close>

text \<open>
  A \<open>float64\<close>: a finite value, idealised as a real (rounding and overflow are not
  modelled, and the two zeros are one), or one of the three special values. Division is
  NumPy's \<open>true_divide\<close>, which returns \<open>inf\<close> or \<open>nan\<close> for a zero divisor where HOL's
  \<open>/\<close> would return 0; comparison with \<open>nan\<close> is false.
\<close>

datatype npfloat = Fin real | PosInf | NegInf | NaN

fun np_add :: "npfloat \<Rightarrow> npfloat \<Rightarrow> npfloat" where
  "np_add (Fin a) (Fin b) = Fin (a + b)"
| "np_add NaN y = NaN"
| "np_add x NaN = NaN"
| "np_add PosInf NegInf = NaN"
| "np_add NegInf PosInf = NaN"
| "np_add PosInf y = PosInf"
| "np_add NegInf y = NegInf"
| "np_add (Fin a) y = y"

fun np_le :: "npfloat \<Rightarrow> npfloat \<Rightarrow> bool" where
  "np_le (Fin a) (Fin b) = (a \<le> b)"
| "np_le NaN y = False"
| "np_le x NaN = False"
| "np_le NegInf y = True"
| "np_le x PosInf = True"
| "np_le PosInf y = False"
| "np_le (Fin a) NegInf = False"

fun np_divide :: "npfloat \<Rightarrow> npfloat \<Rightarrow> npfloat" where
  "np_divide (Fin a) (Fin b) =
     (if b \<noteq> 0 then Fin (a / b)
      else if 0 < a then PosInf else if a < 0 then NegInf else NaN)"
| "np_divide NaN y = NaN"
| "np_divide x NaN = NaN"
| "np_divide (Fin a) y = Fin 0"
| "np_divide PosInf (Fin b) = (if 0 \<le> b then PosInf else NegInf)"
| "np_divide NegInf (Fin b) = (if 0 \<le> b then NegInf else PosInf)"
| "np_divide x y = NaN"

type_synonym vector = "npfloat list"
type_synonym matrix = "npfloat list list"
type_synonym labels = "int list"

text \<open>
  \<open>np.trace\<close>: the sum of the entries \<open>a[i][i]\<close>, as many as the shorter side of the
  array has.
\<close>

fun diagonal :: "matrix \<Rightarrow> nat \<Rightarrow> vector" where
  "diagonal [] i = []"
| "diagonal (r # rs) i = (if i < length r then r ! i # diagonal rs (Suc i) else [])"

definition np_trace :: "matrix \<Rightarrow> npfloat" where
  "np_trace a = foldl np_add (Fin 0) (diagonal a 0)"

text \<open>\<open>np.unique(s)\<close>, the sorted distinct labels, and \<open>np.ones\<close>.\<close>

definition np_unique :: "labels \<Rightarrow> labels" where
  "np_unique s = sort (remdups s)"

definition np_ones :: "nat \<Rightarrow> vector" where
  "np_ones n = replicate n (Fin 1)"

text \<open>
  \<open>a[mask]\<close> with a boolean mask keeps the rows whose flag is set, and raises when the
  mask is not as long as the array.
\<close>

definition bool_index :: "'a list \<Rightarrow> bool list \<Rightarrow> exn + 'a list" where
  "bool_index xs flags =
     (if length flags = length xs then Inr (map fst (filter snd (zip xs flags)))
      else Inl (IndexError ''boolean index did not match indexed array along dimension 0''))"

text \<open>\<open>w[s_pruned == k] = v\<close>.\<close>

definition assign_where :: "vector \<Rightarrow> labels \<Rightarrow> nat \<Rightarrow> npfloat \<Rightarrow> vector" where
  "assign_where w sp k v = map (\<lambda>(x, l). if l = int k then v else x) (zip w sp)"

text \<open>
  Reading an attribute that no statement has set yet raises. For the attributes that
  \<open>fit\<close> computes, \<open>None\<close> in the record stands for "not set" (for
  \<open>confident_joint\<close>, which \<open>fit\<close> sets to Python's \<open>None\<close> before any read, for
  either).
\<close>

definition read_attr :: "string \<Rightarrow> 'a option \<Rightarrow> exn + 'a" where
  "read_attr name v = (case v of None \<Rightarrow> Inl (AttributeError name) | Some x \<Rightarrow> Inr x)"

text \<open>\<open>self.noise_matrix[k][k]\<close>.\<close>

definition diagonal_entry :: "matrix option \<Rightarrow> nat \<Rightarrow> exn + npfloat" where
  "diagonal_entry nm k =
     (case read_attr ''noise_matrix'' nm of
        Inl e \<Rightarrow> Inl e
      | Inr a \<Rightarrow>
          (if k < length a \<and> k < length (a ! k) then Inr (a ! k ! k)
           else Inl (IndexError ''index out of bounds'')))"

subsection \<open>The global random state of NumPy\<close>

text \<open>
  The state of the process-wide generator behind \<open>np.random\<close>: set up from operating
  system entropy, set by \<open>np.random.seed\<close> to a state that the seed alone determines, or
  the successor of a state after one draw.
\<close>

datatype np_random_state = Entropy nat | Seeded int | Next np_random_state


subsection \<open>The wrapped classifier and the estimator object\<close>

text \<open>
  The wrapped classifier is duck-typed: the names of its attributes, which
  \<open>hasattr\<close> tests, and a state that its methods read and \<open>fit\<close> replaces.
\<close>

record 'm classifier =
  attrs :: "string list"
  model :: 'm

record 'm rank_pruning =
  self_clf :: "'m classifier"
  self_seed :: "int option"
  self_cv_n_folds :: int
  self_prune_method :: string
  self_prune_count_method :: string
  self_converge_latent_estimates :: bool
  self_pulearning :: "int option"
  self_K :: "nat option"
  self_ps :: "vector option"
  self_py :: "vector option"
  self_noise_matrix :: "matrix option"
  self_inverse_noise_matrix :: "matrix option"
  self_confident_joint :: "matrix option"
  self_noise_mask :: "bool list option"
  self_sample_weight :: "vector option"

text \<open>
  What \<open>classification.py\<close> imports and calls but does not define: the helpers of
  \<open>cleanlab.util\<close>, \<open>cleanlab.latent_estimation\<close>, \<open>cleanlab.latent_algebra\<close> and
  \<open>cleanlab.pruning\<close>, the \<open>inspect\<close> module, scikit-learn's default classifier and
  \<open>accuracy_score\<close>, and the methods of the wrapped classifier. Each is a parameter. A
  helper that is handed the classifier returns it as well, since it may fit it; an
  \<open>inspect\<close> function that the running interpreter lacks is \<open>None\<close>, and one that is
  there is given the classifier and the name of the method to inspect and returns the
  \<open>.args\<close> of its result.
\<close>

record 'm collaborators =
  logreg :: "'m classifier"
  assert_inputs_are_valid :: "matrix \<Rightarrow> labels \<Rightarrow> matrix option \<Rightarrow> exn option"
  value_counts :: "labels \<Rightarrow> exn + vector"
  compute_py_inv_noise_matrix :: "vector \<Rightarrow> matrix \<Rightarrow> exn + (vector \<times> matrix)"
  compute_noise_matrix_from_inverse :: "vector \<Rightarrow> matrix \<Rightarrow> exn + matrix"
  estimate_py_noise_matrices_and_cv_pred_proba ::
    "matrix \<Rightarrow> labels \<Rightarrow> 'm classifier \<Rightarrow> int \<Rightarrow> vector option \<Rightarrow> bool \<Rightarrow> int option
       \<Rightarrow> exn + ((vector \<times> matrix \<times> matrix \<times> matrix \<times> matrix) \<times> 'm classifier)"
  estimate_py_and_noise_matrices_from_probabilities ::
    "labels \<Rightarrow> matrix \<Rightarrow> vector option \<Rightarrow> bool \<Rightarrow> exn + (vector \<times> matrix \<times> matrix \<times> matrix)"
  estimate_cv_predicted_probabilities ::
    "matrix \<Rightarrow> labels \<Rightarrow> 'm classifier \<Rightarrow> int \<Rightarrow> int option \<Rightarrow> exn + (matrix \<times> 'm classifier)"
  remove_noise_from_class :: "matrix \<Rightarrow> int \<Rightarrow> exn + matrix"
  get_noise_indices ::
    "labels \<Rightarrow> matrix \<Rightarrow> matrix \<Rightarrow> matrix option \<Rightarrow> string \<Rightarrow> string \<Rightarrow> bool \<Rightarrow> exn + bool list"
  inspect_getfullargspec :: "('m classifier \<Rightarrow> string \<Rightarrow> exn + string list) option"
  inspect_getargspec :: "('m classifier \<Rightarrow> string \<Rightarrow> exn + string list) option"
  clf_fit :: "'m classifier \<Rightarrow> matrix \<Rightarrow> labels \<Rightarrow> vector option \<Rightarrow> exn + 'm classifier"
  clf_predict :: "'m classifier \<Rightarrow> matrix \<Rightarrow> exn + labels"
  clf_predict_proba :: "'m classifier \<Rightarrow> matrix \<Rightarrow> exn + matrix"
  clf_score :: "'m classifier \<Rightarrow> matrix \<Rightarrow> labels \<Rightarrow> vector option option \<Rightarrow> exn + npfloat"

text \<open>
  The calls that one \<open>fit\<close> makes into the estimation, pruning and classifier
  collaborators, in order; the cross-validation helpers are logged with the seed they
  are handed and the classifier's \<open>fit\<close> with its arguments. The log is how "before any
  cross-validation work" and "exactly once" are stated.
\<close>

datatype call =
    Call_compute_py_inv_noise_matrix
  | Call_compute_noise_matrix_from_inverse
  | Call_estimate_py_noise_matrices_and_cv_pred_proba "int option"
  | Call_estimate_py_and_noise_matrices_from_probabilities
  | Call_estimate_cv_predicted_probabilities "int option"
  | Call_remove_noise_from_class matrix int
  | Call_get_noise_indices
  | Call_clf_fit matrix labels "vector option"

type_synonym 'm state = "'m rank_pruning \<times> call list"

text \<open>
  Statements run in sequence on the object and the log; the first exception ends the
  run, with the state as the statements before it left it.
\<close>

definition and_then ::
  "('s \<Rightarrow> (exn + 'a) \<times> 's) \<Rightarrow> ('a \<Rightarrow> 's \<Rightarrow> (exn + 'b) \<times> 's) \<Rightarrow> 's \<Rightarrow> (exn + 'b) \<times> 's"
where
  "and_then m f \<sigma> = (case m \<sigma> of (Inl e, \<sigma>') \<Rightarrow> (Inl e, \<sigma>') | (Inr v, \<sigma>') \<Rightarrow> f v \<sigma>')"

subsection \<open>\<open>RankPruning.__init__\<close> (lines 142-174)\<close>


subsection \<open>\<open>RankPruning.fit\<close> (lines 177-318)\<close>

text \<open>Lines 228-233: the helper's validation, then the two trace checks.\<close>

definition trace_too_small :: "matrix option \<Rightarrow> bool" where
  "trace_too_small m = (case m of None \<Rightarrow> False | Some a \<Rightarrow> np_le (np_trace a) (Fin 1))"

definition check_inputs ::
  "'m collaborators \<Rightarrow> matrix \<Rightarrow> labels \<Rightarrow> matrix option \<Rightarrow> matrix option \<Rightarrow> matrix option
     \<Rightarrow> 'm state \<Rightarrow> (exn + unit) \<times> 'm state"
where
  "check_inputs env X s psx noise_matrix inverse_noise_matrix \<sigma> =
     (case assert_inputs_are_valid env X s psx of
        Some e \<Rightarrow> (Inl e, \<sigma>)
      | None \<Rightarrow>
          if trace_too_small noise_matrix then
            (Inl (Exception ''Trace(noise_matrix) must exceed 1.''), \<sigma>)
          else if trace_too_small inverse_noise_matrix then
            (Inl (Exception ''Trace(inverse_noise_matrix) must exceed 1.''), \<sigma>)
          else (Inr (), \<sigma>))"

text \<open>Lines 235-241: \<open>self.K\<close>, \<open>self.ps\<close> and \<open>self.confident_joint = None\<close>.\<close>

definition count_classes ::
  "'m collaborators \<Rightarrow> labels \<Rightarrow> 'm state \<Rightarrow> (exn + unit) \<times> 'm state"
where
  "count_classes env s \<sigma> =
     (case \<sigma> of (self, calls) \<Rightarrow>
        (let self1 = self\<lparr>self_K := Some (length (np_unique s))\<rparr>
         in case value_counts env s of
              Inl e \<Rightarrow> (Inl e, self1, calls)
            | Inr counts \<Rightarrow>
                (Inr (),
                 self1\<lparr>self_ps := Some (map (\<lambda>c. np_divide c (Fin (real (length s)))) counts),
                       self_confident_joint := None\<rparr>,
                 calls)))"

text \<open>Lines 246-249: a supplied noise matrix, and the inverse derived from it.\<close>

definition use_noise_matrix ::
  "'m collaborators \<Rightarrow> matrix option \<Rightarrow> matrix option \<Rightarrow> 'm state \<Rightarrow> (exn + unit) \<times> 'm state"
where
  "use_noise_matrix env noise_matrix inverse_noise_matrix \<sigma> =
     (case \<sigma> of (self, calls) \<Rightarrow>
        (case noise_matrix of
           None \<Rightarrow> (Inr (), self, calls)
         | Some nm \<Rightarrow>
             (let self1 = self\<lparr>self_noise_matrix := Some nm\<rparr>
              in case inverse_noise_matrix of
                   Some i \<Rightarrow> (Inr (), self1, calls)
                 | None \<Rightarrow>
                     (case read_attr ''ps'' (self_ps self1) of
                        Inl e \<Rightarrow> (Inl e, self1, calls)
                      | Inr p \<Rightarrow>
                          (let calls1 = calls @ [Call_compute_py_inv_noise_matrix]
                           in case compute_py_inv_noise_matrix env p nm of
                                Inl e \<Rightarrow> (Inl e, self1, calls1)
                              | Inr (py, inm) \<Rightarrow>
                                  (Inr (),
                                   self1\<lparr>self_py := Some py,
                                         self_inverse_noise_matrix := Some inm\<rparr>,
                                   calls1))))))"

text \<open>Lines 250-253: a supplied inverse noise matrix, and the noise matrix derived from it.\<close>

definition use_inverse_noise_matrix ::
  "'m collaborators \<Rightarrow> matrix option \<Rightarrow> matrix option \<Rightarrow> 'm state \<Rightarrow> (exn + unit) \<times> 'm state"
where
  "use_inverse_noise_matrix env noise_matrix inverse_noise_matrix \<sigma> =
     (case \<sigma> of (self, calls) \<Rightarrow>
        (case inverse_noise_matrix of
           None \<Rightarrow> (Inr (), self, calls)
         | Some inm \<Rightarrow>
             (let self1 = self\<lparr>self_inverse_noise_matrix := Some inm\<rparr>
              in case noise_matrix of
                   Some n \<Rightarrow> (Inr (), self1, calls)
                 | None \<Rightarrow>
                     (case read_attr ''ps'' (self_ps self1) of
                        Inl e \<Rightarrow> (Inl e, self1, calls)
                      | Inr p \<Rightarrow>
                          (let calls1 = calls @ [Call_compute_noise_matrix_from_inverse]
                           in case compute_noise_matrix_from_inverse env p inm of
                                Inl e \<Rightarrow> (Inl e, self1, calls1)
                              | Inr nm \<Rightarrow>
                                  (Inr (), self1\<lparr>self_noise_matrix := Some nm\<rparr>, calls1))))))"

text \<open>
  Lines 254-271: with neither matrix, everything is estimated, from cross-validation when
  \<open>psx\<close> is missing and from \<open>psx\<close> otherwise. The value is \<open>psx\<close> as the later
  statements see it.
\<close>

definition estimate_when_neither ::
  "'m collaborators \<Rightarrow> matrix \<Rightarrow> labels \<Rightarrow> matrix option \<Rightarrow> vector option \<Rightarrow> matrix option
     \<Rightarrow> matrix option \<Rightarrow> 'm state \<Rightarrow> (exn + matrix option) \<times> 'm state"
where
  "estimate_when_neither env X s psx thresholds noise_matrix inverse_noise_matrix \<sigma> =
     (case \<sigma> of (self, calls) \<Rightarrow>
        (if noise_matrix = None \<and> inverse_noise_matrix = None then
           (case psx of
              None \<Rightarrow>
                (let calls1 = calls @ [Call_estimate_py_noise_matrices_and_cv_pred_proba
                                     (self_seed self)]
                 in case estimate_py_noise_matrices_and_cv_pred_proba env X s (self_clf self)
                           (self_cv_n_folds self) thresholds
                           (self_converge_latent_estimates self) (self_seed self) of
                      Inl e \<Rightarrow> (Inl e, self, calls1)
                    | Inr ((py, nm, inm, cj, psx1), clf1) \<Rightarrow>
                        (Inr (Some psx1),
                         self\<lparr>self_clf := clf1, self_py := Some py,
                              self_noise_matrix := Some nm,
                              self_inverse_noise_matrix := Some inm,
                              self_confident_joint := Some cj\<rparr>,
                         calls1))
            | Some p \<Rightarrow>
                (let calls1 = calls @ [Call_estimate_py_and_noise_matrices_from_probabilities]
                 in case estimate_py_and_noise_matrices_from_probabilities env s p thresholds
                           (self_converge_latent_estimates self) of
                      Inl e \<Rightarrow> (Inl e, self, calls1)
                    | Inr (py, nm, inm, cj) \<Rightarrow>
                        (Inr (Some p),
                         self\<lparr>self_py := Some py, self_noise_matrix := Some nm,
                              self_inverse_noise_matrix := Some inm,
                              self_confident_joint := Some cj\<rparr>,
                         calls1)))
         else (Inr psx, self, calls)))"

text \<open>Lines 273-280: \<open>psx\<close> from cross-validation when it is still missing.\<close>

definition ensure_psx ::
  "'m collaborators \<Rightarrow> matrix \<Rightarrow> labels \<Rightarrow> matrix option \<Rightarrow> 'm state \<Rightarrow> (exn + matrix) \<times> 'm state"
where
  "ensure_psx env X s psx \<sigma> =
     (case \<sigma> of (self, calls) \<Rightarrow>
        (case psx of
           Some p \<Rightarrow> (Inr p, self, calls)
         | None \<Rightarrow>
             (let calls1 = calls @ [Call_estimate_cv_predicted_probabilities (self_seed self)]
              in case estimate_cv_predicted_probabilities env X s (self_clf self)
                        (self_cv_n_folds self) (self_seed self) of
                   Inl e \<Rightarrow> (Inl e, self, calls1)
                 | Inr (p, clf1) \<Rightarrow> (Inr p, self\<lparr>self_clf := clf1\<rparr>, calls1))))"

text \<open>Lines 246-280 together.\<close>

definition resolve_estimates ::
  "'m collaborators \<Rightarrow> matrix \<Rightarrow> labels \<Rightarrow> matrix option \<Rightarrow> vector option \<Rightarrow> matrix option
     \<Rightarrow> matrix option \<Rightarrow> 'm state \<Rightarrow> (exn + matrix) \<times> 'm state"
where
  "resolve_estimates env X s psx thresholds noise_matrix inverse_noise_matrix =
     and_then (use_noise_matrix env noise_matrix inverse_noise_matrix) (\<lambda>u1.
     and_then (use_inverse_noise_matrix env noise_matrix inverse_noise_matrix) (\<lambda>u2.
     and_then (estimate_when_neither env X s psx thresholds noise_matrix inverse_noise_matrix)
       (\<lambda>psx1. ensure_psx env X s psx1)))"

text \<open>Lines 283-284: the noise matrix of positive-unlabeled learning.\<close>

definition apply_pulearning :: "'m collaborators \<Rightarrow> 'm state \<Rightarrow> (exn + unit) \<times> 'm state" where
  "apply_pulearning env \<sigma> =
     (case \<sigma> of (self, calls) \<Rightarrow>
        (case self_pulearning self of
           None \<Rightarrow> (Inr (), self, calls)
         | Some c \<Rightarrow>
             (case read_attr ''noise_matrix'' (self_noise_matrix self) of
                Inl e \<Rightarrow> (Inl e, self, calls)
              | Inr nm \<Rightarrow>
                  (let calls1 = calls @ [Call_remove_noise_from_class nm c]
                   in case remove_noise_from_class env nm c of
                        Inl e \<Rightarrow> (Inl e, self, calls1)
                      | Inr nm1 \<Rightarrow> (Inr (), self\<lparr>self_noise_matrix := Some nm1\<rparr>, calls1)))))"

text \<open>Lines 290-298: the noise mask.\<close>

definition compute_noise_mask ::
  "'m collaborators \<Rightarrow> labels \<Rightarrow> matrix \<Rightarrow> 'm state \<Rightarrow> (exn + bool list) \<times> 'm state"
where
  "compute_noise_mask env s psx \<sigma> =
     (case \<sigma> of (self, calls) \<Rightarrow>
        (case read_attr ''inverse_noise_matrix'' (self_inverse_noise_matrix self) of
           Inl e \<Rightarrow> (Inl e, self, calls)
         | Inr inm \<Rightarrow>
             (let calls1 = calls @ [Call_get_noise_indices]
              in case get_noise_indices env s psx inm (self_confident_joint self)
                        (self_prune_method self) (self_prune_count_method self)
                        (self_converge_latent_estimates self) of
                   Inl e \<Rightarrow> (Inl e, self, calls1)
                 | Inr noise_mask \<Rightarrow>
                     (Inr noise_mask, self\<lparr>self_noise_mask := Some noise_mask\<rparr>, calls1))))"

text \<open>Lines 300-302: the examples that survive.\<close>

definition prune ::
  "matrix \<Rightarrow> labels \<Rightarrow> bool list \<Rightarrow> 'm state \<Rightarrow> (exn + (matrix \<times> labels)) \<times> 'm state"
where
  "prune X s noise_mask \<sigma> =
     (let X_mask = map Not noise_mask
      in case bool_index X X_mask of
           Inl e \<Rightarrow> (Inl e, \<sigma>)
         | Inr X_pruned \<Rightarrow>
             (case bool_index s X_mask of
                Inl e \<Rightarrow> (Inl e, \<sigma>)
              | Inr s_pruned \<Rightarrow> (Inr (X_pruned, s_pruned), \<sigma>)))"

text \<open>
  Line 305: \<open>A and B or C and D\<close>, evaluated left to right; \<open>B\<close> and \<open>D\<close> inspect
  \<open>self.clf.fit\<close> and may raise.
\<close>

definition inspected_has_sample_weight ::
  "('m classifier \<Rightarrow> string \<Rightarrow> exn + string list) option \<Rightarrow> 'm classifier \<Rightarrow> string \<Rightarrow> exn + bool"
where
  "inspected_has_sample_weight inspector c method =
     (case inspector of
        None \<Rightarrow> Inr False
      | Some f \<Rightarrow>
          (case f c method of
             Inl e \<Rightarrow> Inl e
           | Inr args \<Rightarrow> Inr (''sample_weight'' \<in> set args)))"

definition accepts_sample_weight :: "'m collaborators \<Rightarrow> 'm classifier \<Rightarrow> exn + bool" where
  "accepts_sample_weight env c =
     (case inspected_has_sample_weight (inspect_getfullargspec env) c ''fit'' of
        Inl e \<Rightarrow> Inl e
      | Inr True \<Rightarrow> Inr True
      | Inr False \<Rightarrow> inspected_has_sample_weight (inspect_getargspec env) c ''fit'')"

text \<open>
  Lines 310-311: the loop over \<open>range(self.K)\<close>. The right-hand side is evaluated first,
  so a class index beyond the matrix raises even when no survivor has that label; the
  weights assigned before that stay assigned.
\<close>

fun weight_loop :: "matrix option \<Rightarrow> labels \<Rightarrow> nat list \<Rightarrow> vector \<Rightarrow> exn option \<times> vector" where
  "weight_loop nm s_pruned [] w = (None, w)"
| "weight_loop nm s_pruned (k # ks) w =
     (case diagonal_entry nm k of
        Inl e \<Rightarrow> (Some e, w)
      | Inr d \<Rightarrow> weight_loop nm s_pruned ks (assign_where w s_pruned k (np_divide (Fin 1) d)))"

text \<open>Lines 305-318: the final fit, weighted when the classifier's \<open>fit\<close> takes weights.\<close>

definition final_fit ::
  "'m collaborators \<Rightarrow> matrix \<Rightarrow> labels \<Rightarrow> 'm state \<Rightarrow> (exn + 'm classifier) \<times> 'm state"
where
  "final_fit env X_pruned s_pruned \<sigma> =
     (case \<sigma> of (self, calls) \<Rightarrow>
        (case accepts_sample_weight env (self_clf self) of
           Inl e \<Rightarrow> (Inl e, self, calls)
         | Inr True \<Rightarrow>
             (let self1 = self\<lparr>self_sample_weight := Some (np_ones (length s_pruned))\<rparr>
              in case read_attr ''K'' (self_K self1) of
                   Inl e \<Rightarrow> (Inl e, self1, calls)
                 | Inr k \<Rightarrow>
                     (case weight_loop (self_noise_matrix self1) s_pruned [0..<k]
                             (np_ones (length s_pruned)) of
                        (Some e, w) \<Rightarrow> (Inl e, self1\<lparr>self_sample_weight := Some w\<rparr>, calls)
                      | (None, w) \<Rightarrow>
                          (let self2 = self1\<lparr>self_sample_weight := Some w\<rparr>;
                               calls1 = calls @ [Call_clf_fit X_pruned s_pruned (Some w)]
                           in case clf_fit env (self_clf self2) X_pruned s_pruned (Some w) of
                                Inl e \<Rightarrow> (Inl e, self2, calls1)
                              | Inr clf1 \<Rightarrow> (Inr clf1, self2\<lparr>self_clf := clf1\<rparr>, calls1))))
         | Inr False \<Rightarrow>
             (let calls1 = calls @ [Call_clf_fit X_pruned s_pruned None]
              in case clf_fit env (self_clf self) X_pruned s_pruned None of
                   Inl e \<Rightarrow> (Inl e, self, calls1)
                 | Inr clf1 \<Rightarrow> (Inr clf1, self\<lparr>self_clf := clf1\<rparr>, calls1))))"

text \<open>
  Everything before line 304, with the pruned training set as its value, and the whole
  of \<open>fit\<close>: its outcome (the fitted classifier it returns, or the exception), the
  object afterwards and the log of this call.
\<close>

definition fit_prefix ::
  "'m collaborators \<Rightarrow> matrix \<Rightarrow> labels \<Rightarrow> matrix option \<Rightarrow> vector option \<Rightarrow> matrix option
     \<Rightarrow> matrix option \<Rightarrow> 'm state \<Rightarrow> (exn + (matrix \<times> labels)) \<times> 'm state"
where
  "fit_prefix env X s psx thresholds noise_matrix inverse_noise_matrix =
     and_then (check_inputs env X s psx noise_matrix inverse_noise_matrix) (\<lambda>u1.
     and_then (count_classes env s) (\<lambda>u2.
     and_then (resolve_estimates env X s psx thresholds noise_matrix inverse_noise_matrix)
       (\<lambda>psx1.
     and_then (apply_pulearning env) (\<lambda>u3.
     and_then (compute_noise_mask env s psx1) (\<lambda>noise_mask.
     prune X s noise_mask)))))"

definition fit ::
  "'m collaborators \<Rightarrow> 'm rank_pruning \<Rightarrow> matrix \<Rightarrow> labels \<Rightarrow> matrix option \<Rightarrow> vector option
     \<Rightarrow> matrix option \<Rightarrow> matrix option \<Rightarrow> (exn + 'm classifier) \<times> 'm state"
where
  "fit env self X s psx thresholds noise_matrix inverse_noise_matrix =
     and_then (fit_prefix env X s psx thresholds noise_matrix inverse_noise_matrix)
       (\<lambda>(X_pruned, s_pruned). final_fit env X_pruned s_pruned) (self, [])"

subsection \<open>\<open>predict\<close>, \<open>predict_proba\<close> and \<open>score\<close> (lines 321-364)\<close>



text \<open>
  The names that \<open>score\<close> can read: its parameters, and what the module binds at top
  level (its imports and the class). Of these only \<open>X\<close> is bound to an array. Any other
  name that is no builtin raises \<open>NameError\<close> when it is evaluated.
\<close>

datatype pyval = Array matrix | Object

definition module_globals :: "string list" where
  "module_globals =
     [''print_function'', ''absolute_import'', ''division'', ''unicode_literals'',
      ''with_statement'', ''logreg'', ''StratifiedKFold'', ''accuracy_score'', ''np'',
      ''inspect'', ''assert_inputs_are_valid'', ''value_counts'', ''remove_noise_from_class'',
      ''estimate_py_noise_matrices_and_cv_pred_proba'',
      ''estimate_py_and_noise_matrices_from_probabilities'',
      ''estimate_cv_predicted_probabilities'', ''compute_py_inv_noise_matrix'',
      ''compute_noise_matrix_from_inverse'', ''get_noise_indices'', ''BaseEstimator'',
      ''RankPruning'']"

definition score_scope :: "matrix \<Rightarrow> (string \<times> pyval) list" where
  "score_scope X =
     [(''self'', Object), (''X'', Array X), (''y'', Object), (''sample_weight'', Object)]
       @ map (\<lambda>n. (n, Object)) module_globals"

definition lookup_name :: "(string \<times> pyval) list \<Rightarrow> string \<Rightarrow> exn + pyval" where
  "lookup_name scope n =
     (case map_of scope n of None \<Rightarrow> Inl (NameError n) | Some v \<Rightarrow> Inr v)"

text \<open>
  \<open>score\<close> (lines 358-364); \<open>accuracy_score\<close> is scikit-learn's, a parameter. In the
  last branch the arguments of \<open>accuracy_score\<close> are evaluated in order, and
  \<open>self.clf.predict(X_val)\<close> evaluates the name \<open>X_val\<close> before it can call
  \<open>predict\<close>.
\<close>

definition score ::
  "'m collaborators \<Rightarrow> (labels \<Rightarrow> labels \<Rightarrow> vector option \<Rightarrow> exn + npfloat) \<Rightarrow> 'm rank_pruning
     \<Rightarrow> matrix \<Rightarrow> labels \<Rightarrow> vector option \<Rightarrow> exn + npfloat"
where
  "score env accuracy_score self X y sample_weight =
     (if ''score'' \<in> set (attrs (self_clf self)) then
        (case inspect_getfullargspec env of
           None \<Rightarrow> Inl (AttributeError ''getfullargspec'')
         | Some f \<Rightarrow>
             (case f (self_clf self) ''score'' of
                Inl e \<Rightarrow> Inl e
              | Inr args \<Rightarrow>
                  (if ''sample_weight'' \<in> set args
                   then clf_score env (self_clf self) X y (Some sample_weight)
                   else clf_score env (self_clf self) X y None)))
      else
        (case lookup_name (score_scope X) ''X_val'' of
           Inl e \<Rightarrow> Inl e
         | Inr Object \<Rightarrow> Inl (Raised ''predict'')
         | Inr (Array X_val) \<Rightarrow>
             (case clf_predict env (self_clf self) X_val of
                Inl e \<Rightarrow> Inl e
              | Inr predicted \<Rightarrow> accuracy_score y predicted sample_weight)))"

subsection \<open>Reading the outcome of a call\<close>

text \<open>
  The calls that estimate something (the noise matrices, the priors, the confident
  joint or \<open>psx\<close>), the calls of the classifier's \<open>fit\<close>, and the seed that a
  cross-validation helper was handed.
\<close>

fun is_estimation_call :: "call \<Rightarrow> bool" where
  "is_estimation_call (Call_remove_noise_from_class m c) = False"
| "is_estimation_call Call_get_noise_indices = False"
| "is_estimation_call (Call_clf_fit X s w) = False"
| "is_estimation_call c = True"

fun is_clf_fit :: "call \<Rightarrow> bool" where
  "is_clf_fit (Call_clf_fit X s w) = True"
| "is_clf_fit c = False"



text \<open>The attributes that lines 246-280 read but never write.\<close>

definition settings_kept :: "'m rank_pruning \<Rightarrow> 'm state \<Rightarrow> bool" where
  "settings_kept self \<sigma> =
     (self_ps (fst \<sigma>) = self_ps self \<and> self_K (fst \<sigma>) = self_K self
      \<and> self_pulearning (fst \<sigma>) = self_pulearning self)"

text \<open>
  The classifier's \<open>fit\<close> takes no \<open>sample_weight\<close>: each \<open>inspect\<close> function that the
  interpreter has returns a parameter list without that name.
\<close>

definition fit_takes_no_sample_weight :: "'m collaborators \<Rightarrow> 'm classifier \<Rightarrow> bool" where
  "fit_takes_no_sample_weight env c =
     (inspected_has_sample_weight (inspect_getfullargspec env) c ''fit'' = Inr False
      \<and> inspected_has_sample_weight (inspect_getargspec env) c ''fit'' = Inr False)"

subsection \<open>\<open>remove_noise_from_class\<close> of \<open>cleanlab.util\<close>\<close>

text \<open>
  Sums and differences of \<open>float64\<close> values, the columns of a matrix, and what the spec
  requires of a noise matrix (sections 3 and 8): it is square, its entries are finite and
  not negative, and each column sums to 1.
\<close>

fun np_subtract :: "npfloat \<Rightarrow> npfloat \<Rightarrow> npfloat" where
  "np_subtract (Fin a) (Fin b) = Fin (a - b)"
| "np_subtract NaN y = NaN"
| "np_subtract x NaN = NaN"
| "np_subtract PosInf PosInf = NaN"
| "np_subtract NegInf NegInf = NaN"
| "np_subtract PosInf y = PosInf"
| "np_subtract NegInf y = NegInf"
| "np_subtract (Fin a) PosInf = NegInf"
| "np_subtract (Fin a) NegInf = PosInf"

fun is_Fin :: "npfloat \<Rightarrow> bool" where
  "is_Fin (Fin a) = True"
| "is_Fin x = False"

fun fin_value :: "npfloat \<Rightarrow> real" where
  "fin_value (Fin a) = a"
| "fin_value x = 0"

definition np_sum :: "vector \<Rightarrow> npfloat" where
  "np_sum v = foldl np_add (Fin 0) v"

definition column :: "matrix \<Rightarrow> nat \<Rightarrow> vector" where
  "column m j = map (\<lambda>row. row ! j) (filter (\<lambda>row. j < length row) m)"

definition columns_are_distributions :: "matrix \<Rightarrow> bool" where
  "columns_are_distributions m =
     (list_all (\<lambda>row. length row = length m
                       \<and> list_all (\<lambda>x. is_Fin x \<and> np_le (Fin 0) x) row) m
      \<and> list_all (\<lambda>j. np_sum (column m j) = Fin 1) [0..<length m])"

text \<open>
  Modelled from the spec: \<open>remove_noise_from_class\<close> lives in \<open>cleanlab/util.py\<close>, which
  is not among the sources. The spec says that \<open>fit\<close> "optionally zeroes noise-matrix
  rows/columns for a designated noise-free class", that the entries of that class's row
  and column "reflecting flipped into/out of class 0 must be zero", and that every noise
  matrix produced has columns that sum to 1. So, for a class \<open>c\<close> of the matrix: the
  entries off the diagonal in row \<open>c\<close> and in column \<open>c\<close> become zero, every other entry
  off the diagonal stays, and the diagonal entry of each column becomes what the entries
  off the diagonal leave of 1, so that the column is a distribution again. A class index
  that is no row of the matrix raises, as indexing the array with it does.
\<close>

definition zero_flips :: "matrix \<Rightarrow> nat \<Rightarrow> matrix" where
  "zero_flips nm c =
     map (\<lambda>(i, row). map (\<lambda>(j, x). if i \<noteq> j \<and> (i = c \<or> j = c) then Fin 0 else x)
                         (enumerate 0 row))
         (enumerate 0 nm)"

definition off_diagonal_sum :: "matrix \<Rightarrow> nat \<Rightarrow> npfloat" where
  "off_diagonal_sum x j =
     np_sum (map (\<lambda>i. x ! i ! j) (filter (\<lambda>i. i \<noteq> j \<and> j < length (x ! i)) [0..<length x]))"

definition fill_diagonal :: "matrix \<Rightarrow> matrix" where
  "fill_diagonal x =
     map (\<lambda>(i, row). map (\<lambda>(j, v). if i = j then np_subtract (Fin 1) (off_diagonal_sum x j)
                                      else v)
                         (enumerate 0 row))
         (enumerate 0 x)"

definition remove_noise_from_class_spec :: "matrix \<Rightarrow> int \<Rightarrow> exn + matrix" where
  "remove_noise_from_class_spec nm c =
     (if 0 \<le> c \<and> c < int (length nm) then Inr (fill_diagonal (zero_flips nm (nat c)))
      else Inl (IndexError ''class_without_noise is out of bounds''))"

subsection \<open>A small dataset and concrete collaborators\<close>

text \<open>
  Four examples of two classes and a classifier whose state counts its fits, on which
  the theorems below are exercised. The argument of \<open>test_collaborators\<close> is the
  parameter list that \<open>inspect.getfullargspec\<close> reports; \<open>inspect.getargspec\<close> is
  absent, as in a current interpreter.
\<close>

definition test_noise_matrix :: matrix where
  "test_noise_matrix = [[Fin (4/5), Fin (1/10)], [Fin (1/5), Fin (9/10)]]"

definition uniform_matrix :: matrix where
  "uniform_matrix = [[Fin (1/2), Fin (1/2)], [Fin (1/2), Fin (1/2)]]"

definition test_collaborators :: "string list \<Rightarrow> nat collaborators" where
  "test_collaborators fit_args =
     \<lparr>logreg = \<lparr>attrs = [''fit'', ''predict_proba'', ''predict'', ''score''], model = 0\<rparr>,
      assert_inputs_are_valid =
        (\<lambda>X s psx. if length X = length s then None
                    else Some (ValueError ''X and s must have same length.'')),
      value_counts = (\<lambda>s. Inr (map (\<lambda>l. Fin (real (count_list s l))) (np_unique s))),
      compute_py_inv_noise_matrix = (\<lambda>p nm. Inr (p, transpose nm)),
      compute_noise_matrix_from_inverse = (\<lambda>p inm. Inr (transpose inm)),
      estimate_py_noise_matrices_and_cv_pred_proba =
        (\<lambda>X s c folds th conv seed.
           Inr (([Fin (1/2), Fin (1/2)], test_noise_matrix, transpose test_noise_matrix,
                 [[Fin 2, Fin 0], [Fin 0, Fin 2]], map (\<lambda>l. [Fin (1/2), Fin (1/2)]) s),
                c\<lparr>model := Suc (model c)\<rparr>)),
      estimate_py_and_noise_matrices_from_probabilities =
        (\<lambda>s psx th conv.
           Inr ([Fin (1/2), Fin (1/2)], test_noise_matrix, transpose test_noise_matrix,
                [[Fin 2, Fin 0], [Fin 0, Fin 2]])),
      estimate_cv_predicted_probabilities =
        (\<lambda>X s c folds seed. Inr (map (\<lambda>l. [Fin (1/2), Fin (1/2)]) s, c)),
      remove_noise_from_class = remove_noise_from_class_spec,
      get_noise_indices =
        (\<lambda>s psx inm cj pm pcm conv.
           Inr (map (\<lambda>(l, row). np_le (row ! nat l) (Fin (1/4))) (zip s psx))),
      inspect_getfullargspec = Some (\<lambda>c m. Inr fit_args),
      inspect_getargspec = None,
      clf_fit = (\<lambda>c X s w. Inr (c\<lparr>model := Suc (model c)\<rparr>)),
      clf_predict = (\<lambda>c X. Inr (map (\<lambda>r. 0) X)),
      clf_predict_proba = (\<lambda>c X. Inr (map (\<lambda>r. [Fin 1, Fin 0]) X)),
      clf_score = (\<lambda>c X y w. Inr (Fin 1))\<rparr>"

definition test_clf :: "nat classifier" where
  "test_clf = \<lparr>attrs = [''fit'', ''predict_proba'', ''predict''], model = 0\<rparr>"

definition test_self :: "int option \<Rightarrow> nat rank_pruning" where
  "test_self pu =
     \<lparr>self_clf = test_clf, self_seed = Some 0, self_cv_n_folds = 5,
      self_prune_method = ''prune_by_noise_rate'',
      self_prune_count_method = ''inverse_nm_dot_s'',
      self_converge_latent_estimates = False, self_pulearning = pu,
      self_K = None, self_ps = None, self_py = None, self_noise_matrix = None,
      self_inverse_noise_matrix = None, self_confident_joint = None,
      self_noise_mask = None, self_sample_weight = None\<rparr>"

definition test_X :: matrix where
  "test_X = [[Fin 0], [Fin 1], [Fin 2], [Fin 3]]"

definition test_s :: labels where
  "test_s = [0, 1, 0, 1]"

definition test_psx :: matrix where
  "test_psx = [[Fin (9/10), Fin (1/10)], [Fin (1/5), Fin (4/5)],
               [Fin (1/5), Fin (4/5)], [Fin (3/10), Fin (7/10)]]"

text \<open>
  Three classes on the same four examples, a noise matrix for them, and that matrix with
  class 0 free of noise.
\<close>

definition three_class_s :: labels where
  "three_class_s = [0, 1, 2, 1]"

definition three_class_psx :: matrix where
  "three_class_psx = [[Fin (4/5), Fin (1/10), Fin (1/10)], [Fin (1/10), Fin (4/5), Fin (1/10)],
                      [Fin (1/5), Fin (1/5), Fin (3/5)], [Fin (7/10), Fin (1/5), Fin (1/10)]]"

definition three_class_noise_matrix :: matrix where
  "three_class_noise_matrix =
     [[Fin (7/10), Fin (1/10), Fin (1/5)],
      [Fin (1/5), Fin (4/5), Fin (1/10)],
      [Fin (1/10), Fin (1/10), Fin (7/10)]]"

definition noise_matrix_without_class_0 :: matrix where
  "noise_matrix_without_class_0 =
     [[Fin 1, Fin 0, Fin 0],
      [Fin 0, Fin (9/10), Fin (1/10)],
      [Fin 0, Fin (1/10), Fin (9/10)]]"

subsection \<open>The global random state during \<open>fit\<close>\<close>

text \<open>
  \<open>fit\<close> has no statement that seeds or draws: what shuffles folds or draws random
  numbers is the code it hands the classifier to, that is the two cross-validation
  helpers (which are also handed the seed) and the classifier's own methods. What that
  code can read and write beyond its arguments travels with the classifier: for the
  claims about randomness, the state of the classifier is a pair of its own state and
  the state of NumPy's global generator. \<open>fit\<close> is generic in the state of the
  classifier, so it is the same \<open>fit\<close>. The other helpers are not handed the classifier
  and are functions of their arguments.
\<close>

definition global_random_state :: "('w \<times> np_random_state) classifier \<Rightarrow> np_random_state" where
  "global_random_state c = snd (model c)"

definition in_random_state ::
  "np_random_state \<Rightarrow> ('w \<times> np_random_state) classifier \<Rightarrow> ('w \<times> np_random_state) classifier"
where
  "in_random_state g c = c\<lparr>model := (fst (model c), g)\<rparr>"

definition self_in_random_state ::
  "np_random_state \<Rightarrow> ('w \<times> np_random_state) rank_pruning
     \<Rightarrow> ('w \<times> np_random_state) rank_pruning"
where
  "self_in_random_state g self = self\<lparr>self_clf := in_random_state g (self_clf self)\<rparr>"






text \<open>
  A stand-in for scikit-learn's \<open>accuracy_score\<close>: the share of predictions that equal
  the label.
\<close>

definition unweighted_accuracy :: "labels \<Rightarrow> labels \<Rightarrow> vector option \<Rightarrow> exn + npfloat" where
  "unweighted_accuracy y predicted w =
     Inr (np_divide (Fin (real (length (filter (\<lambda>(a, b). a = b) (zip y predicted)))))
                    (Fin (real (length y))))"

section \<open>Properties of the factory\<close>

lemma map_of_update_same: "map_of (AList.update k v al) k = Some v"
  by (simp add: update_conv')

text \<open>
  C9. When \<open>task\<close> is a key of the registry and the name of the class is already a key of
  \<open>REGISTRY[task]\<close>, registering an \<open>IssueManager\<close> subclass under that name does not
  raise: it returns the class it was given, appends exactly the overwrite warning to
  standard output, and afterwards \<open>from_str\<close> of that name and task returns the new class.
\<close>

theorem register_overwrites_existing:
  assumes "subclass_of_IssueManager cls"
    and "issue_name cls = Some name"
    and "map_of (REGISTRY st) task = Some d"
    and "map_of d name = Some old"
  shows "\<exists>st'. register cls task st = Inr (cls, st')
           \<and> stdout st' = stdout st @ [overwrite_warning name cls task]
           \<and> from_str (REGISTRY st') (IssueStr name) task = Inr cls"
  using assms
  by (simp add: register_def from_str_def map_of_update_same)

theorem register_overwrites_existing_witness:
  "subclass_of_IssueManager MyOutlierManager
   \<and> issue_name MyOutlierManager = Some ''outlier''
   \<and> map_of (REGISTRY factory_initial) ''classification'' \<noteq> None
   \<and> map_of (the (map_of (REGISTRY factory_initial) ''classification'')) ''outlier''
       = Some OutlierIssueManager
   \<and> (\<exists>st'. register MyOutlierManager ''classification'' factory_initial
              = Inr (MyOutlierManager, st')
        \<and> stdout st' = [overwrite_warning ''outlier'' MyOutlierManager ''classification'']
        \<and> from_str (REGISTRY st') (IssueStr ''outlier'') ''classification''
            = Inr MyOutlierManager)"
proof -
  have a: "subclass_of_IssueManager MyOutlierManager"
    by (simp add: MyOutlierManager_def)
  have b: "issue_name MyOutlierManager = Some ''outlier''"
    by (simp add: MyOutlierManager_def)
  have c: "map_of (REGISTRY factory_initial) ''classification''
             = Some (snd (hd REGISTRY_initial))"
    by (simp add: factory_initial_def REGISTRY_initial_def)
  have d: "map_of (snd (hd REGISTRY_initial)) ''outlier'' = Some OutlierIssueManager"
    by (simp add: REGISTRY_initial_def)
  from register_overwrites_existing [OF a b c d] a b c d
  show ?thesis
    by (simp add: factory_initial_def)
qed

text \<open>
  C10. For a task that is not a key of the registry, \<open>list_possible_issue_types\<close> returns
  the empty list, while \<open>from_str\<close> raises \<open>ValueError\<close> for that task; \<open>from_str\<close> also
  raises \<open>ValueError\<close> whenever \<open>issue_type\<close> is a list, and whenever the task is known
  but the issue type is not a key of its dictionary.
\<close>

theorem unknown_task_list_empty_from_str_raises:
  "(map_of reg task = None \<longrightarrow>
      list_possible_issue_types reg task = []
      \<and> (\<exists>e. from_str reg issue_type task = Inl e \<and> is_ValueError e))
   \<and> (\<exists>e. from_str reg (IssueList l) task' = Inl e \<and> is_ValueError e)
   \<and> (map_of reg task'' = Some d \<and> map_of d it = None \<longrightarrow>
        (\<exists>e. from_str reg (IssueStr it) task'' = Inl e \<and> is_ValueError e))"
  by (cases issue_type) (simp_all add: list_possible_issue_types_def from_str_def)

theorem unknown_task_list_empty_from_str_raises_witness:
  "map_of REGISTRY_initial ''clustering'' = None
   \<and> list_possible_issue_types REGISTRY_initial ''clustering'' = []
   \<and> (\<exists>e. from_str REGISTRY_initial (IssueStr ''label'') ''clustering'' = Inl e
          \<and> is_ValueError e)
   \<and> (\<exists>e. from_str REGISTRY_initial (IssueList [''label'']) ''classification'' = Inl e
          \<and> is_ValueError e)
   \<and> map_of REGISTRY_initial ''regression'' = Some [(''label'', RegressionLabelIssueManager)]
   \<and> map_of [(''label'', RegressionLabelIssueManager)] ''outlier'' = None
   \<and> (\<exists>e. from_str REGISTRY_initial (IssueStr ''outlier'') ''regression'' = Inl e
          \<and> is_ValueError e)"
proof -
  have a: "map_of REGISTRY_initial ''clustering'' = None"
    by (simp add: REGISTRY_initial_def)
  have b: "map_of REGISTRY_initial ''regression'' = Some [(''label'', RegressionLabelIssueManager)]"
    by (simp add: REGISTRY_initial_def)
  have c: "map_of [(''label'', RegressionLabelIssueManager)] ''outlier'' = None"
    by simp
  from unknown_task_list_empty_from_str_raises
         [of REGISTRY_initial "''clustering''" "IssueStr ''label''" "[''label'']"
             "''classification''" "''regression''" "[(''label'', RegressionLabelIssueManager)]"
             "''outlier''"]
       a b c
  show ?thesis by simp
qed

section \<open>Properties of \<open>RankPruning\<close>\<close>

subsection \<open>How a run of \<open>fit\<close> decomposes\<close>

lemma and_then_Inr_iff:
  "and_then m f \<sigma> = (Inr v, \<sigma>') \<longleftrightarrow> (\<exists>u \<sigma>1. m \<sigma> = (Inr u, \<sigma>1) \<and> f u \<sigma>1 = (Inr v, \<sigma>'))"
  by (auto simp: and_then_def split: prod.splits sum.splits)

lemma check_inputs_Inr:
  "check_inputs env X s psx nm inm \<sigma> = (Inr u, \<sigma>') \<Longrightarrow> \<sigma>' = \<sigma>"
  by (auto simp: check_inputs_def split: option.splits if_splits)

lemma count_classes_Inr:
  "count_classes env s (self, calls) = (Inr u, \<sigma>') \<Longrightarrow>
     \<exists>p. \<sigma>' = (self\<lparr>self_K := Some (length (np_unique s)), self_ps := Some p,
                      self_confident_joint := None\<rparr>, calls)"
  by (auto simp: count_classes_def Let_def split: sum.splits)

lemma apply_pulearning_Inr:
  "apply_pulearning env (self, calls) = (Inr u, \<sigma>') \<Longrightarrow>
     (self_pulearning self = None \<and> \<sigma>' = (self, calls))
     \<or> (\<exists>c nm nm1. self_pulearning self = Some c \<and> self_noise_matrix self = Some nm
          \<and> remove_noise_from_class env nm c = Inr nm1
          \<and> \<sigma>' = (self\<lparr>self_noise_matrix := Some nm1\<rparr>, calls @ [Call_remove_noise_from_class nm c]))"
  by (auto simp: apply_pulearning_def read_attr_def Let_def split: option.splits sum.splits)

lemma compute_noise_mask_Inr:
  "compute_noise_mask env s psx (self, calls) = (Inr flags, \<sigma>') \<Longrightarrow>
     \<sigma>' = (self\<lparr>self_noise_mask := Some flags\<rparr>, calls @ [Call_get_noise_indices])"
  by (auto simp: compute_noise_mask_def read_attr_def Let_def split: option.splits sum.splits)

lemma prune_Inr:
  "prune X s flags \<sigma> = (Inr (Xp, sp), \<sigma>') \<Longrightarrow>
     \<sigma>' = \<sigma> \<and> bool_index X (map Not flags) = Inr Xp \<and> bool_index s (map Not flags) = Inr sp"
  by (auto simp: prune_def Let_def split: sum.splits)


lemma fit_prefix_Inr:
  assumes "fit_prefix env X s psx th nm inm (self, calls) = (Inr (Xp, sp), \<sigma>')"
  shows "\<exists>p px self1 calls1 self2 calls2 flags.
      check_inputs env X s psx nm inm (self, calls) = (Inr (), self, calls)
      \<and> resolve_estimates env X s psx th nm inm
           (self\<lparr>self_K := Some (length (np_unique s)), self_ps := Some p,
                 self_confident_joint := None\<rparr>, calls) = (Inr px, self1, calls1)
      \<and> apply_pulearning env (self1, calls1) = (Inr (), self2, calls2)
      \<and> \<sigma>' = (self2\<lparr>self_noise_mask := Some flags\<rparr>, calls2 @ [Call_get_noise_indices])
      \<and> bool_index X (map Not flags) = Inr Xp \<and> bool_index s (map Not flags) = Inr sp"
proof -
  from assms obtain u1 s1 u2 s2 px s3 u3 s4 flags s5 where
    a: "check_inputs env X s psx nm inm (self, calls) = (Inr u1, s1)"
    and b: "count_classes env s s1 = (Inr u2, s2)"
    and c: "resolve_estimates env X s psx th nm inm s2 = (Inr px, s3)"
    and d: "apply_pulearning env s3 = (Inr u3, s4)"
    and e: "compute_noise_mask env s px s4 = (Inr flags, s5)"
    and f: "prune X s flags s5 = (Inr (Xp, sp), \<sigma>')"
    unfolding fit_prefix_def and_then_Inr_iff by blast
  from check_inputs_Inr [OF a] have s1: "s1 = (self, calls)" .
  from count_classes_Inr [OF b [unfolded s1]] obtain p where
    s2: "s2 = (self\<lparr>self_K := Some (length (np_unique s)), self_ps := Some p,
                     self_confident_joint := None\<rparr>, calls)" by blast
  obtain self1 calls1 where s3: "s3 = (self1, calls1)" by (cases s3)
  obtain self2 calls2 where s4: "s4 = (self2, calls2)" by (cases s4)
  from compute_noise_mask_Inr [OF e [unfolded s4]] have
    s5: "s5 = (self2\<lparr>self_noise_mask := Some flags\<rparr>, calls2 @ [Call_get_noise_indices])" .
  from prune_Inr [OF f] have g: "\<sigma>' = s5" "bool_index X (map Not flags) = Inr Xp"
    "bool_index s (map Not flags) = Inr sp" by simp_all
  have a': "check_inputs env X s psx nm inm (self, calls) = (Inr (), self, calls)"
    using a s1 by simp
  have d': "apply_pulearning env (self1, calls1) = (Inr (), self2, calls2)"
    using d s3 s4 by simp
  show ?thesis
    apply (rule exI [where x = p], rule exI [where x = px], rule exI [where x = self1])
    apply (rule exI [where x = calls1], rule exI [where x = self2])
    apply (rule exI [where x = calls2], rule exI [where x = flags])
    using a' c d' g unfolding s2 s3 s5 by simp
qed

lemma final_fit_Inr:
  assumes "final_fit env Xp sp (self, calls) = (Inr c, \<sigma>')"
  shows "(accepts_sample_weight env (self_clf self) = Inr True
          \<and> (\<exists>k w. self_K self = Some k
                \<and> weight_loop (self_noise_matrix self) sp [0..<k] (np_ones (length sp)) = (None, w)
                \<and> clf_fit env (self_clf self) Xp sp (Some w) = Inr c
                \<and> \<sigma>' = (self\<lparr>self_sample_weight := Some w, self_clf := c\<rparr>,
                          calls @ [Call_clf_fit Xp sp (Some w)])))
       \<or> (accepts_sample_weight env (self_clf self) = Inr False
          \<and> clf_fit env (self_clf self) Xp sp None = Inr c
          \<and> \<sigma>' = (self\<lparr>self_clf := c\<rparr>, calls @ [Call_clf_fit Xp sp None]))"
  using assms
  by (auto simp: final_fit_def read_attr_def Let_def
           split: sum.splits bool.splits option.splits prod.splits)

lemma fit_Inr:
  assumes "fit env self X s psx th nm inm = (Inr c, \<sigma>')"
  shows "\<exists>Xp sp self1 calls1.
           fit_prefix env X s psx th nm inm (self, []) = (Inr (Xp, sp), self1, calls1)
           \<and> final_fit env Xp sp (self1, calls1) = (Inr c, \<sigma>')"
  using assms unfolding fit_def and_then_Inr_iff by auto


lemma and_then_cases:
  assumes "and_then m f \<sigma> = (r, \<sigma>')"
  obtains e where "m \<sigma> = (Inl e, \<sigma>')" "r = Inl e"
  | u \<sigma>1 where "m \<sigma> = (Inr u, \<sigma>1)" "f u \<sigma>1 = (r, \<sigma>')"
  using assms by (auto simp: and_then_def split: prod.splits sum.splits)

lemma and_then_invariant:
  assumes "and_then m f \<sigma> = (r, \<sigma>')" and "I \<sigma>"
    and "\<And>r \<sigma> \<sigma>'. m \<sigma> = (r, \<sigma>') \<Longrightarrow> I \<sigma> \<Longrightarrow> I \<sigma>'"
    and "\<And>u r \<sigma> \<sigma>'. f u \<sigma> = (r, \<sigma>') \<Longrightarrow> I \<sigma> \<Longrightarrow> I \<sigma>'"
  shows "I \<sigma>'"
  using assms(1)
proof (cases rule: and_then_cases)
  case (1 e)
  then show ?thesis using assms(2,3) by blast
next
  case (2 u \<sigma>1)
  then show ?thesis using assms(2,3,4) by blast
qed















lemma and_then_Inr: "m \<sigma> = (Inr u, \<sigma>1) \<Longrightarrow> and_then m f \<sigma> = f u \<sigma>1"
  by (simp add: and_then_def)

lemma and_then_Inl: "m \<sigma> = (Inl e, \<sigma>1) \<Longrightarrow> and_then m f \<sigma> = (Inl e, \<sigma>1)"
  by (simp add: and_then_def)

lemma use_noise_matrix_None: "use_noise_matrix env None inm \<sigma> = (Inr (), \<sigma>)"
  by (simp add: use_noise_matrix_def split: prod.splits)

lemma use_noise_matrix_Some_Some:
  "use_noise_matrix env (Some n) (Some i) (self, calls)
     = (Inr (), self\<lparr>self_noise_matrix := Some n\<rparr>, calls)"
  by (simp add: use_noise_matrix_def)

lemma use_inverse_noise_matrix_None: "use_inverse_noise_matrix env nm None \<sigma> = (Inr (), \<sigma>)"
  by (simp add: use_inverse_noise_matrix_def split: prod.splits)

lemma use_inverse_noise_matrix_Some_Some:
  "use_inverse_noise_matrix env (Some n) (Some i) (self, calls)
     = (Inr (), self\<lparr>self_inverse_noise_matrix := Some i\<rparr>, calls)"
  by (simp add: use_inverse_noise_matrix_def)

lemma estimate_when_neither_supplied:
  "nm \<noteq> None \<or> inm \<noteq> None \<Longrightarrow>
     estimate_when_neither env X s psx th nm inm \<sigma> = (Inr psx, \<sigma>)"
  by (auto simp: estimate_when_neither_def split: prod.splits)

lemma ensure_psx_Some: "ensure_psx env X s (Some p) \<sigma> = (Inr p, \<sigma>)"
  by (simp add: ensure_psx_def split: prod.splits)

lemma resolve_both:
  "resolve_estimates env X s psx th (Some n) (Some i) (self, calls)
     = ensure_psx env X s psx
         (self\<lparr>self_noise_matrix := Some n, self_inverse_noise_matrix := Some i\<rparr>, calls)"
  by (simp add: resolve_estimates_def and_then_Inr use_noise_matrix_Some_Some
                use_inverse_noise_matrix_Some_Some estimate_when_neither_supplied)

lemma resolve_noise_matrix_only:
  assumes "self_ps self = Some p"
  shows "resolve_estimates env X s psx th (Some n) None (self, calls)
     = (case compute_py_inv_noise_matrix env p n of
          Inl e \<Rightarrow> (Inl e, self\<lparr>self_noise_matrix := Some n\<rparr>,
                      calls @ [Call_compute_py_inv_noise_matrix])
        | Inr (py, i) \<Rightarrow>
            ensure_psx env X s psx
              (self\<lparr>self_noise_matrix := Some n, self_py := Some py,
                    self_inverse_noise_matrix := Some i\<rparr>,
               calls @ [Call_compute_py_inv_noise_matrix]))"
proof (cases "compute_py_inv_noise_matrix env p n")
  case (Inl e)
  then have "use_noise_matrix env (Some n) None (self, calls)
      = (Inl e, self\<lparr>self_noise_matrix := Some n\<rparr>, calls @ [Call_compute_py_inv_noise_matrix])"
    using assms by (simp add: use_noise_matrix_def read_attr_def)
  then show ?thesis using Inl
    by (simp add: resolve_estimates_def and_then_Inl)
next
  case (Inr r)
  obtain py i where r: "r = (py, i)" by (cases r)
  have "use_noise_matrix env (Some n) None (self, calls)
      = (Inr (), self\<lparr>self_noise_matrix := Some n, self_py := Some py,
                      self_inverse_noise_matrix := Some i\<rparr>,
         calls @ [Call_compute_py_inv_noise_matrix])"
    using assms Inr r by (simp add: use_noise_matrix_def read_attr_def)
  then show ?thesis using Inr r
    by (simp add: resolve_estimates_def and_then_Inr use_inverse_noise_matrix_None
                  estimate_when_neither_supplied)
qed

lemma resolve_inverse_noise_matrix_only:
  assumes "self_ps self = Some p"
  shows "resolve_estimates env X s psx th None (Some i) (self, calls)
     = (case compute_noise_matrix_from_inverse env p i of
          Inl e \<Rightarrow> (Inl e, self\<lparr>self_inverse_noise_matrix := Some i\<rparr>,
                      calls @ [Call_compute_noise_matrix_from_inverse])
        | Inr n \<Rightarrow>
            ensure_psx env X s psx
              (self\<lparr>self_inverse_noise_matrix := Some i, self_noise_matrix := Some n\<rparr>,
               calls @ [Call_compute_noise_matrix_from_inverse]))"
proof (cases "compute_noise_matrix_from_inverse env p i")
  case (Inl e)
  then have "use_inverse_noise_matrix env None (Some i) (self, calls)
      = (Inl e, self\<lparr>self_inverse_noise_matrix := Some i\<rparr>,
         calls @ [Call_compute_noise_matrix_from_inverse])"
    using assms by (simp add: use_inverse_noise_matrix_def read_attr_def)
  then show ?thesis using Inl
    by (simp add: resolve_estimates_def and_then_Inr and_then_Inl use_noise_matrix_None)
next
  case (Inr n)
  then have "use_inverse_noise_matrix env None (Some i) (self, calls)
      = (Inr (), self\<lparr>self_inverse_noise_matrix := Some i, self_noise_matrix := Some n\<rparr>,
         calls @ [Call_compute_noise_matrix_from_inverse])"
    using assms by (simp add: use_inverse_noise_matrix_def read_attr_def)
  then show ?thesis using Inr
    by (simp add: resolve_estimates_def and_then_Inr use_noise_matrix_None
                  estimate_when_neither_supplied)
qed

lemma resolve_neither_without_psx:
  "resolve_estimates env X s None th None None (self, calls)
     = (case estimate_py_noise_matrices_and_cv_pred_proba env X s (self_clf self)
               (self_cv_n_folds self) th (self_converge_latent_estimates self) (self_seed self) of
          Inl e \<Rightarrow> (Inl e, self,
                      calls @ [Call_estimate_py_noise_matrices_and_cv_pred_proba (self_seed self)])
        | Inr ((py, n, i, cj, psx1), clf1) \<Rightarrow>
            (Inr psx1,
             self\<lparr>self_clf := clf1, self_py := Some py, self_noise_matrix := Some n,
                   self_inverse_noise_matrix := Some i, self_confident_joint := Some cj\<rparr>,
             calls @ [Call_estimate_py_noise_matrices_and_cv_pred_proba (self_seed self)]))"
  by (simp add: resolve_estimates_def and_then_def use_noise_matrix_None
                use_inverse_noise_matrix_None estimate_when_neither_def ensure_psx_Some
           split: sum.splits prod.splits)

lemma resolve_neither_with_psx:
  "resolve_estimates env X s (Some px) th None None (self, calls)
     = (case estimate_py_and_noise_matrices_from_probabilities env s px th
               (self_converge_latent_estimates self) of
          Inl e \<Rightarrow> (Inl e, self,
                      calls @ [Call_estimate_py_and_noise_matrices_from_probabilities])
        | Inr (py, n, i, cj) \<Rightarrow>
            (Inr px,
             self\<lparr>self_py := Some py, self_noise_matrix := Some n,
                   self_inverse_noise_matrix := Some i, self_confident_joint := Some cj\<rparr>,
             calls @ [Call_estimate_py_and_noise_matrices_from_probabilities]))"
  by (simp add: resolve_estimates_def and_then_def use_noise_matrix_None
                use_inverse_noise_matrix_None estimate_when_neither_def ensure_psx_Some
           split: sum.splits prod.splits)


lemma ensure_psx_Inr:
  assumes "ensure_psx env X s psx (self, calls) = (Inr px, self1, calls1)"
  shows "(psx = Some px \<and> self1 = self \<and> calls1 = calls)
       \<or> (psx = None
          \<and> (\<exists>c1. estimate_cv_predicted_probabilities env X s (self_clf self)
                      (self_cv_n_folds self) (self_seed self) = Inr (px, c1)
                \<and> self1 = self\<lparr>self_clf := c1\<rparr>)
          \<and> calls1 = calls @ [Call_estimate_cv_predicted_probabilities (self_seed self)])"
  using assms
  by (auto simp: ensure_psx_def Let_def split: option.splits sum.splits)

lemma fit_tail:
  assumes "apply_pulearning env (self1, calls1) = (Inr u, self2, calls2)"
    and "final_fit env Xp sp (self2\<lparr>self_noise_mask := Some flags\<rparr>,
            calls2 @ [Call_get_noise_indices]) = (Inr c, self', calls)"
  shows "self_py self' = self_py self1"
    and "self_inverse_noise_matrix self' = self_inverse_noise_matrix self1"
    and "self_confident_joint self' = self_confident_joint self1"
    and "self_ps self' = self_ps self1"
    and "self_K self' = self_K self1"
    and "self_noise_mask self' = Some flags"
    and "self_noise_matrix self' = self_noise_matrix self2"
    and "self_pulearning self1 = None \<Longrightarrow> self_noise_matrix self' = self_noise_matrix self1"
    and "filter is_estimation_call calls = filter is_estimation_call calls1"
  using apply_pulearning_Inr [OF assms(1)] final_fit_Inr [OF assms(2)]
  by auto

lemma fit_success:
  assumes "fit env self X s psx th nm inm = (Inr c, self', calls)"
  obtains p px self1 calls1 self2 calls2 flags Xp sp where
    "resolve_estimates env X s psx th nm inm
       (self\<lparr>self_K := Some (length (np_unique s)), self_ps := Some p,
             self_confident_joint := None\<rparr>, []) = (Inr px, self1, calls1)"
    and "apply_pulearning env (self1, calls1) = (Inr (), self2, calls2)"
    and "fit_prefix env X s psx th nm inm (self, [])
           = (Inr (Xp, sp), self2\<lparr>self_noise_mask := Some flags\<rparr>,
              calls2 @ [Call_get_noise_indices])"
    and "bool_index X (map Not flags) = Inr Xp" and "bool_index s (map Not flags) = Inr sp"
    and "final_fit env Xp sp (self2\<lparr>self_noise_mask := Some flags\<rparr>,
            calls2 @ [Call_get_noise_indices]) = (Inr c, self', calls)"
proof -
  from fit_Inr [OF assms] obtain Xp sp selfP callsP where
    a: "fit_prefix env X s psx th nm inm (self, []) = (Inr (Xp, sp), selfP, callsP)"
    and b: "final_fit env Xp sp (selfP, callsP) = (Inr c, self', calls)" by blast
  from fit_prefix_Inr [OF a] obtain p px self1 calls1 self2 calls2 flags where
    "resolve_estimates env X s psx th nm inm
       (self\<lparr>self_K := Some (length (np_unique s)), self_ps := Some p,
             self_confident_joint := None\<rparr>, []) = (Inr px, self1, calls1)"
    "apply_pulearning env (self1, calls1) = (Inr (), self2, calls2)"
    "(selfP, callsP) = (self2\<lparr>self_noise_mask := Some flags\<rparr>, calls2 @ [Call_get_noise_indices])"
    "bool_index X (map Not flags) = Inr Xp" "bool_index s (map Not flags) = Inr sp"
    by blast
  with a b that show thesis by simp
qed


lemma kept_use_noise_matrix:
  "use_noise_matrix env nm inm \<sigma> = (r, \<sigma>') \<Longrightarrow> settings_kept self \<sigma> \<Longrightarrow> settings_kept self \<sigma>'"
  by (auto simp: use_noise_matrix_def settings_kept_def read_attr_def Let_def
           split: prod.splits sum.splits option.splits)

lemma kept_use_inverse_noise_matrix:
  "use_inverse_noise_matrix env nm inm \<sigma> = (r, \<sigma>') \<Longrightarrow> settings_kept self \<sigma>
     \<Longrightarrow> settings_kept self \<sigma>'"
  by (auto simp: use_inverse_noise_matrix_def settings_kept_def read_attr_def Let_def
           split: prod.splits sum.splits option.splits)

lemma kept_estimate_when_neither:
  "estimate_when_neither env X s psx th nm inm \<sigma> = (r, \<sigma>') \<Longrightarrow> settings_kept self \<sigma>
     \<Longrightarrow> settings_kept self \<sigma>'"
  by (auto simp: estimate_when_neither_def settings_kept_def Let_def
           split: prod.splits sum.splits option.splits if_splits)

lemma kept_ensure_psx:
  "ensure_psx env X s psx \<sigma> = (r, \<sigma>') \<Longrightarrow> settings_kept self \<sigma> \<Longrightarrow> settings_kept self \<sigma>'"
  by (auto simp: ensure_psx_def settings_kept_def Let_def
           split: prod.splits sum.splits option.splits)

lemma kept_resolve_estimates:
  assumes "resolve_estimates env X s psx th nm inm (self, calls) = (r, self1, calls1)"
  shows "self_ps self1 = self_ps self" and "self_K self1 = self_K self"
    and "self_pulearning self1 = self_pulearning self"
proof -
  have "settings_kept self (self, calls)" by (simp add: settings_kept_def)
  with assms have "settings_kept self (self1, calls1)"
    unfolding resolve_estimates_def
    by (elim and_then_invariant [where I = "settings_kept self"])
       (auto elim: kept_use_noise_matrix kept_use_inverse_noise_matrix
                   kept_estimate_when_neither kept_ensure_psx)
  then show "self_ps self1 = self_ps self" and "self_K self1 = self_K self"
    and "self_pulearning self1 = self_pulearning self"
    by (simp_all add: settings_kept_def)
qed

lemma noise_matrix_resolved:
  assumes "resolve_estimates env X s psx th nm inm (self, calls) = (Inr px, self1, calls1)"
    and "self_ps self = Some p"
  shows "self_noise_matrix self1 \<noteq> None"
proof (cases nm)
  case None
  note nm = this
  show ?thesis
  proof (cases inm)
    case None
    with nm assms show ?thesis
      by (cases psx)
         (auto simp: resolve_neither_without_psx resolve_neither_with_psx
               split: sum.splits prod.splits)
  next
    case (Some i)
    with nm assms show ?thesis
      by (auto simp: resolve_inverse_noise_matrix_only split: sum.splits dest!: ensure_psx_Inr)
  qed
next
  case (Some n)
  note nm = this
  show ?thesis
  proof (cases inm)
    case None
    with nm assms show ?thesis
      by (auto simp: resolve_noise_matrix_only split: sum.splits prod.splits
               dest!: ensure_psx_Inr)
  next
    case (Some i)
    with nm assms show ?thesis
      by (auto simp: resolve_both dest!: ensure_psx_Inr)
  qed
qed

lemma estimation_not_fit: "is_estimation_call c \<Longrightarrow> \<not> is_clf_fit c"
  by (cases c) simp_all

lemma resolve_calls:
  assumes "resolve_estimates env X s psx th nm inm (self, calls) = (Inr px, self1, calls1)"
    and "self_ps self = Some p"
  shows "\<exists>cs. calls1 = calls @ cs \<and> list_all is_estimation_call cs"
proof (cases nm)
  case None
  note nm = this
  show ?thesis
  proof (cases inm)
    case None
    with nm assms show ?thesis
      by (cases psx)
         (auto simp: resolve_neither_without_psx resolve_neither_with_psx
               split: sum.splits prod.splits)
  next
    case (Some i)
    with nm assms show ?thesis
      by (auto simp: resolve_inverse_noise_matrix_only split: sum.splits dest!: ensure_psx_Inr)
  qed
next
  case (Some n)
  note nm = this
  show ?thesis
  proof (cases inm)
    case None
    with nm assms show ?thesis
      by (auto simp: resolve_noise_matrix_only split: sum.splits prod.splits
               dest!: ensure_psx_Inr)
  next
    case (Some i)
    with nm assms show ?thesis
      by (auto simp: resolve_both dest!: ensure_psx_Inr)
  qed
qed

lemma fit_prefix_facts:
  assumes "fit_prefix env X s psx th nm inm (self, []) = (Inr (Xp, sp), selfP, callsP)"
  shows "filter is_clf_fit callsP = []"
    and "self_K selfP = Some (length (np_unique s))"
    and "self_noise_matrix selfP \<noteq> None"
    and "\<exists>flags. self_noise_mask selfP = Some flags
           \<and> bool_index X (map Not flags) = Inr Xp \<and> bool_index s (map Not flags) = Inr sp"
proof -
  from fit_prefix_Inr [OF assms] obtain p px self1 calls1 self2 calls2 flags where
    r: "resolve_estimates env X s psx th nm inm
          (self\<lparr>self_K := Some (length (np_unique s)), self_ps := Some p,
                self_confident_joint := None\<rparr>, []) = (Inr px, self1, calls1)"
    and pu: "apply_pulearning env (self1, calls1) = (Inr (), self2, calls2)"
    and P: "(selfP, callsP) = (self2\<lparr>self_noise_mask := Some flags\<rparr>,
                              calls2 @ [Call_get_noise_indices])"
    and bi: "bool_index X (map Not flags) = Inr Xp" "bool_index s (map Not flags) = Inr sp"
    by blast
  from resolve_calls [OF r] have c1: "list_all is_estimation_call calls1" by auto
  then have "filter is_clf_fit calls1 = []"
    by (induction calls1) (auto dest: estimation_not_fit)
  with apply_pulearning_Inr [OF pu] P show "filter is_clf_fit callsP = []" by auto
  from kept_resolve_estimates(2) [OF r] apply_pulearning_Inr [OF pu] P
  show "self_K selfP = Some (length (np_unique s))" by auto
  from noise_matrix_resolved [OF r] apply_pulearning_Inr [OF pu] P
  show "self_noise_matrix selfP \<noteq> None" by auto
  from P bi show "\<exists>flags. self_noise_mask selfP = Some flags
           \<and> bool_index X (map Not flags) = Inr Xp \<and> bool_index s (map Not flags) = Inr sp"
    by auto
qed

lemma accepts_False:
  "fit_takes_no_sample_weight env c \<Longrightarrow> accepts_sample_weight env c = Inr False"
  by (simp add: fit_takes_no_sample_weight_def accepts_sample_weight_def)

lemma bool_index_Inr:
  assumes "bool_index xs flags = Inr ys"
  shows "length flags = length xs" and "set ys \<subseteq> set xs"
    and "length ys = length (filter (\<lambda>b. b) flags)"
proof -
  from assms show len: "length flags = length xs"
    by (auto simp: bool_index_def split: if_splits)
  from assms have ys: "ys = map fst (filter snd (zip xs flags))"
    by (auto simp: bool_index_def split: if_splits)
  show "set ys \<subseteq> set xs" unfolding ys by (auto dest: set_zip_leftD)
  from len show "length ys = length (filter (\<lambda>b. b) flags)" unfolding ys
    by (induction flags xs rule: list_induct2) auto
qed

lemma assign_where_nth:
  "length w = length sp \<Longrightarrow> i < length sp \<Longrightarrow>
     assign_where w sp k v ! i = (if sp ! i = int k then v else w ! i)"
  by (simp add: assign_where_def)

lemma weight_loop_None:
  assumes "weight_loop (Some nm) sp ks w0 = (None, w)" and "length w0 = length sp"
  shows "length w = length sp
       \<and> (\<forall>i<length sp. w ! i = (if \<exists>k\<in>set ks. sp ! i = int k
                                 then np_divide (Fin 1) (nm ! nat (sp ! i) ! nat (sp ! i))
                                 else w0 ! i))"
  using assms
proof (induction ks arbitrary: w0)
  case Nil
  then show ?case by simp
next
  case (Cons k ks)
  from Cons.prems(1) obtain d where
    d: "diagonal_entry (Some nm) k = Inr d"
    and rest: "weight_loop (Some nm) sp ks (assign_where w0 sp k (np_divide (Fin 1) d)) = (None, w)"
    by (auto split: sum.splits)
  from d have dk: "d = nm ! k ! k"
    by (auto simp: diagonal_entry_def read_attr_def split: if_splits)
  have len: "length (assign_where w0 sp k (np_divide (Fin 1) d)) = length sp"
    using Cons.prems(2) by (simp add: assign_where_def)
  from Cons.IH [OF rest len] have
    l: "length w = length sp"
    and v: "\<And>i. i < length sp \<Longrightarrow>
              w ! i = (if \<exists>k\<in>set ks. sp ! i = int k
                       then np_divide (Fin 1) (nm ! nat (sp ! i) ! nat (sp ! i))
                       else assign_where w0 sp k (np_divide (Fin 1) d) ! i)"
    by auto
  show ?case
  proof (intro conjI allI impI)
    show "length w = length sp" by (rule l)
  next
    fix i assume i: "i < length sp"
    show "w ! i = (if \<exists>k\<in>set (k # ks). sp ! i = int k
                   then np_divide (Fin 1) (nm ! nat (sp ! i) ! nat (sp ! i))
                   else w0 ! i)"
      using v [OF i] assign_where_nth [OF Cons.prems(2) i, of k "np_divide (Fin 1) d"] dk
      by auto
  qed
qed

subsection \<open>The runs on the small dataset\<close>

lemmas fit_stage_defs =
  fit_def fit_prefix_def and_then_def check_inputs_def count_classes_def resolve_estimates_def
  use_noise_matrix_def use_inverse_noise_matrix_def estimate_when_neither_def ensure_psx_def
  apply_pulearning_def compute_noise_mask_def prune_def final_fit_def accepts_sample_weight_def
  inspected_has_sample_weight_def read_attr_def diagonal_entry_def bool_index_def
  assign_where_def np_ones_def np_unique_def trace_too_small_def np_trace_def
  remove_noise_from_class_spec_def fill_diagonal_def zero_flips_def off_diagonal_sum_def
  np_sum_def

lemmas test_defs =
  test_collaborators_def test_clf_def test_self_def test_X_def test_s_def test_psx_def
  test_noise_matrix_def uniform_matrix_def three_class_s_def three_class_psx_def
  three_class_noise_matrix_def noise_matrix_without_class_0_def

lemma test_run_prefix:
  "fit_prefix (test_collaborators args) test_X test_s (Some test_psx) None
       (Some test_noise_matrix) None (test_self None, [])
     = (Inr ([[Fin 0], [Fin 1], [Fin 3]], [0, 1, 1]),
        (test_self None)
          \<lparr>self_K := Some 2, self_ps := Some [Fin (1/2), Fin (1/2)],
            self_py := Some [Fin (1/2), Fin (1/2)],
            self_noise_matrix := Some test_noise_matrix,
            self_inverse_noise_matrix := Some (transpose test_noise_matrix),
            self_noise_mask := Some [False, False, True, False]\<rparr>,
        [Call_compute_py_inv_noise_matrix, Call_get_noise_indices])"
  by (simp add: fit_stage_defs test_defs Let_def transpose.simps)

lemma test_run_weighted:
  "fit (test_collaborators [''self'', ''X'', ''y'', ''sample_weight'']) (test_self None)
       test_X test_s (Some test_psx) None (Some test_noise_matrix) None
     = (Inr (test_clf\<lparr>model := 1\<rparr>),
        (test_self None)
          \<lparr>self_clf := test_clf\<lparr>model := 1\<rparr>,
            self_K := Some 2, self_ps := Some [Fin (1/2), Fin (1/2)],
            self_py := Some [Fin (1/2), Fin (1/2)],
            self_noise_matrix := Some test_noise_matrix,
            self_inverse_noise_matrix := Some (transpose test_noise_matrix),
            self_noise_mask := Some [False, False, True, False],
            self_sample_weight := Some [Fin (5/4), Fin (10/9), Fin (10/9)]\<rparr>,
        [Call_compute_py_inv_noise_matrix, Call_get_noise_indices,
         Call_clf_fit [[Fin 0], [Fin 1], [Fin 3]] [0, 1, 1]
           (Some [Fin (5/4), Fin (10/9), Fin (10/9)])])"
  by (simp add: fit_stage_defs test_defs Let_def transpose.simps upt_rec)

lemma test_prefix_both:
  "fit_prefix (test_collaborators args) test_X test_s None None
       (Some test_noise_matrix) (Some (transpose test_noise_matrix)) (test_self None, [])
     = (Inr (test_X, test_s),
        (test_self None)
          \<lparr>self_K := Some 2, self_ps := Some [Fin (1/2), Fin (1/2)],
            self_noise_matrix := Some test_noise_matrix,
            self_inverse_noise_matrix := Some (transpose test_noise_matrix),
            self_noise_mask := Some [False, False, False, False]\<rparr>,
        [Call_estimate_cv_predicted_probabilities (Some 0), Call_get_noise_indices])"
  by (simp add: fit_stage_defs test_defs Let_def transpose.simps)


subsection \<open>The noise matrix after \<open>remove_noise_from_class\<close>\<close>

lemma is_Fin_conv: "is_Fin x \<longleftrightarrow> x = Fin (fin_value x)"
  by (cases x) simp_all

lemma foldl_np_add_Fin:
  "foldl np_add (Fin a) (map (\<lambda>i. Fin (h i)) xs) = Fin (a + sum_list (map h xs))"
  by (induction xs arbitrary: a) (simp_all add: add.assoc)

lemma np_sum_Fin: "np_sum (map (\<lambda>i. Fin (h i)) xs) = Fin (sum_list (map h xs))"
  by (simp add: np_sum_def foldl_np_add_Fin)

lemma columns_are_distributions_iff:
  "columns_are_distributions m \<longleftrightarrow>
     (\<forall>i<length m. length (m ! i) = length m
         \<and> (\<forall>j<length m. is_Fin (m ! i ! j) \<and> np_le (Fin 0) (m ! i ! j)))
     \<and> (\<forall>j<length m. np_sum (column m j) = Fin 1)"
  by (auto simp: columns_are_distributions_def list_all_length)

lemma column_of_square:
  assumes "\<forall>i<length m. length (m ! i) = length m" and "j < length m"
  shows "column m j = map (\<lambda>i. m ! i ! j) [0..<length m]"
proof -
  have "filter (\<lambda>row. j < length row) m = m"
    using assms by (auto simp: filter_id_conv in_set_conv_nth)
  then have "column m j = map (\<lambda>row. row ! j) m"
    by (simp add: column_def)
  also have "\<dots> = map (\<lambda>i. m ! i ! j) [0..<length m]"
    by (simp add: map_equality_iff)
  finally show ?thesis .
qed

lemma column_sum_fun:
  assumes "\<forall>i<length m. length (m ! i) = length m"
    and "\<forall>i<length m. m ! i ! j = Fin (g i)" and "j < length m"
  shows "np_sum (column m j) = Fin (\<Sum>i<length m. g i)"
proof -
  have "column m j = map (\<lambda>i. Fin (g i)) [0..<length m]"
    using assms by (simp add: column_of_square)
  then show ?thesis
    by (simp add: np_sum_Fin interv_sum_list_conv_sum_set_nat lessThan_atLeast0)
qed

lemma off_diagonal_sum_fun:
  assumes "\<forall>i<length m. length (m ! i) = length m"
    and "\<forall>i<length m. m ! i ! j = Fin (g i)" and "j < length m"
  shows "off_diagonal_sum m j = Fin (\<Sum>i\<in>{..<length m} - {j}. g i)"
proof -
  have f: "filter (\<lambda>i. i \<noteq> j \<and> j < length (m ! i)) [0..<length m]
             = filter (\<lambda>i. i \<noteq> j) [0..<length m]"
    using assms by (intro filter_cong) auto
  have "map (\<lambda>i. m ! i ! j) (filter (\<lambda>i. i \<noteq> j) [0..<length m])
          = map (\<lambda>i. Fin (g i)) (filter (\<lambda>i. i \<noteq> j) [0..<length m])"
    using assms by (intro map_cong) auto
  then have "np_sum (map (\<lambda>i. m ! i ! j) (filter (\<lambda>i. i \<noteq> j) [0..<length m]))
          = Fin (sum_list (map g (filter (\<lambda>i. i \<noteq> j) [0..<length m])))"
    by (simp only: np_sum_Fin)
  then have "off_diagonal_sum m j
               = Fin (sum_list (map g (filter (\<lambda>i. i \<noteq> j) [0..<length m])))"
    by (simp only: off_diagonal_sum_def f)
  also have "sum_list (map g (filter (\<lambda>i. i \<noteq> j) [0..<length m]))
               = sum g (set (filter (\<lambda>i. i \<noteq> j) [0..<length m]))"
    by (rule sum_list_distinct_conv_sum_set) simp
  also have "set (filter (\<lambda>i. i \<noteq> j) [0..<length m]) = {..<length m} - {j}"
    by auto
  finally show ?thesis .
qed

lemma zero_flips_length: "length (zero_flips m c) = length m"
  by (simp add: zero_flips_def)

lemma zero_flips_entry:
  assumes "i < length m"
  shows "length (zero_flips m c ! i) = length (m ! i)"
    and "j < length (m ! i) \<Longrightarrow>
           zero_flips m c ! i ! j = (if i \<noteq> j \<and> (i = c \<or> j = c) then Fin 0 else m ! i ! j)"
  using assms by (simp_all add: zero_flips_def nth_enumerate_eq)

lemma fill_diagonal_length: "length (fill_diagonal x) = length x"
  by (simp add: fill_diagonal_def)

lemma fill_diagonal_entry:
  assumes "i < length x"
  shows "length (fill_diagonal x ! i) = length (x ! i)"
    and "j < length (x ! i) \<Longrightarrow>
           fill_diagonal x ! i ! j
             = (if i = j then np_subtract (Fin 1) (off_diagonal_sum x j) else x ! i ! j)"
  using assms by (simp_all add: fill_diagonal_def nth_enumerate_eq)


lemma remove_noise_keeps_distributions:
  assumes "columns_are_distributions m0" and "c < length m0"
  shows "columns_are_distributions (fill_diagonal (zero_flips m0 c))"
    and "fill_diagonal (zero_flips m0 c) ! c ! c = Fin 1"
proof -
  define K where "K = length m0"
  define x where "x = zero_flips m0 c"
  define m where "m = fill_diagonal x"
  define f0 where "f0 i j = fin_value (m0 ! i ! j)" for i j
  define fx where "fx i j = (if i \<noteq> j \<and> (i = c \<or> j = c) then 0 else f0 i j)" for i j
  define S where "S j = (\<Sum>i\<in>{..<K} - {j}. fx i j)" for j
  define fm where "fm i j = (if i = j then 1 - S j else fx i j)" for i j
  from assms(1) have sq0: "\<And>i. i < K \<Longrightarrow> length (m0 ! i) = K"
    and e0: "\<And>i j. i < K \<Longrightarrow> j < K \<Longrightarrow> m0 ! i ! j = Fin (f0 i j)"
    and n0: "\<And>i j. i < K \<Longrightarrow> j < K \<Longrightarrow> 0 \<le> f0 i j"
    and cs0: "\<And>j. j < K \<Longrightarrow> np_sum (column m0 j) = Fin 1"
    unfolding columns_are_distributions_iff K_def f0_def
    by (auto simp: is_Fin_conv) (metis is_Fin_conv np_le.simps(1))+
  have sum0: "(\<Sum>i<K. f0 i j) = 1" if "j < K" for j
    using column_sum_fun [of m0 j "\<lambda>i. f0 i j"] sq0 e0 cs0 [OF that] that
    by (simp add: K_def)
  have lx: "length x = K" by (simp add: x_def K_def zero_flips_length)
  have rx: "length (x ! i) = K" if "i < K" for i
    using that sq0 by (simp add: x_def zero_flips_entry(1) K_def)
  have ex: "x ! i ! j = Fin (fx i j)" if "i < K" "j < K" for i j
    using that sq0 e0 by (simp add: x_def zero_flips_entry(2) K_def fx_def)
  have od: "off_diagonal_sum x j = Fin (S j)" if "j < K" for j
    using off_diagonal_sum_fun [of x j "\<lambda>i. fx i j"] lx rx ex that
    by (simp add: S_def)
  have lm: "length m = K" by (simp add: m_def fill_diagonal_length lx)
  have rm: "length (m ! i) = K" if "i < K" for i
    using that lx rx by (simp add: m_def fill_diagonal_entry(1))
  have em: "m ! i ! j = Fin (fm i j)" if "i < K" "j < K" for i j
    using that lx rx ex od by (simp add: m_def fill_diagonal_entry(2) fm_def)
  have nx: "0 \<le> fx i j" if "i < K" "j < K" for i j
    using that n0 by (simp add: fx_def)
  have S0: "0 \<le> S j" if "j < K" for j
    unfolding S_def using that nx by (intro sum_nonneg) auto
  have S1: "S j \<le> 1" if "j < K" for j
  proof -
    have "S j \<le> (\<Sum>i\<in>{..<K} - {j}. f0 i j)"
      unfolding S_def using that n0 by (intro sum_mono) (auto simp: fx_def)
    also have "\<dots> = (\<Sum>i<K. f0 i j) - f0 j j"
      using that by (simp add: sum_diff1)
    also have "\<dots> \<le> 1"
      using sum0 [OF that] n0 [OF that that] by simp
    finally show ?thesis .
  qed
  have col: "(\<Sum>i<K. fm i j) = 1" if "j < K" for j
  proof -
    have "(\<Sum>i<K. fm i j) = fm j j + (\<Sum>i\<in>{..<K} - {j}. fm i j)"
      using that by (simp add: sum.remove)
    also have "(\<Sum>i\<in>{..<K} - {j}. fm i j) = S j"
      unfolding S_def by (intro sum.cong) (auto simp: fm_def)
    finally show ?thesis by (simp add: fm_def)
  qed
  have nm: "0 \<le> fm i j" if "i < K" "j < K" for i j
    using that nx S1 by (simp add: fm_def)
  have cm: "np_sum (column m j) = Fin 1" if "j < K" for j
    using column_sum_fun [of m j "\<lambda>i. fm i j"] lm rm em col [OF that] that by simp
  show "columns_are_distributions (fill_diagonal (zero_flips m0 c))"
    unfolding columns_are_distributions_iff m_def [symmetric] x_def [symmetric]
    using lm rm em nm cm by simp
  have "S c = 0"
    unfolding S_def by (intro sum.neutral) (auto simp: fx_def)
  with em [of c c] assms(2) show "fill_diagonal (zero_flips m0 c) ! c ! c = Fin 1"
    by (simp add: m_def x_def K_def fm_def)
qed

lemma remove_noise_from_class_spec_Inr:
  assumes "remove_noise_from_class_spec m0 k = Inr m"
  shows "0 \<le> k" and "k < int (length m0)" and "m = fill_diagonal (zero_flips m0 (nat k))"
  using assms by (auto simp: remove_noise_from_class_spec_def split: if_splits)

lemma test_run_pulearning:
  "fit (test_collaborators [''self'', ''X'', ''y'']) (test_self (Some 0))
       test_X three_class_s (Some three_class_psx) None (Some three_class_noise_matrix) None
     = (Inr (test_clf\<lparr>model := 1\<rparr>),
        (test_self (Some 0))
          \<lparr>self_clf := test_clf\<lparr>model := 1\<rparr>,
            self_K := Some 3, self_ps := Some [Fin (1/4), Fin (1/2), Fin (1/4)],
            self_py := Some [Fin (1/4), Fin (1/2), Fin (1/4)],
            self_noise_matrix := Some noise_matrix_without_class_0,
            self_inverse_noise_matrix := Some (transpose three_class_noise_matrix),
            self_noise_mask := Some [False, False, False, True]\<rparr>,
        [Call_compute_py_inv_noise_matrix,
         Call_remove_noise_from_class three_class_noise_matrix 0,
         Call_get_noise_indices,
         Call_clf_fit [[Fin 0], [Fin 1], [Fin 2]] [0, 1, 2] None])"
  by (simp add: fit_stage_defs test_defs three_class_s_def three_class_psx_def
                three_class_noise_matrix_def noise_matrix_without_class_0_def Let_def
                transpose.simps enumerate_eq_zip upt_rec)

subsection \<open>\<open>fit\<close> from different global random states\<close>

lemma in_random_state_simps [simp]:
  "in_random_state g2 (in_random_state g1 c) = in_random_state g2 c"
  "global_random_state (in_random_state g c) = g"
  "in_random_state (global_random_state c) c = c"
  "attrs (in_random_state g c) = attrs c"
  by (simp_all add: in_random_state_def global_random_state_def)

lemma self_in_random_state_simps [simp]:
  "self_in_random_state g2 (self_in_random_state g1 self) = self_in_random_state g2 self"
  "self_clf (self_in_random_state g self) = in_random_state g (self_clf self)"
  "self_in_random_state (global_random_state (self_clf self)) self = self"
  "self_seed (self_in_random_state g self) = self_seed self"
  by (simp_all add: self_in_random_state_def)


lemma and_then_equivariant:
  assumes "\<And>\<sigma>. m (L \<sigma>) = map_prod id L (m \<sigma>)"
    and "\<And>u \<sigma>. f u (L \<sigma>) = map_prod R L (f u \<sigma>)"
    and "\<And>e. R (Inl e) = Inl e"
  shows "and_then m f (L \<sigma>) = map_prod R L (and_then m f \<sigma>)"
proof (cases "m \<sigma>")
  case (Pair r \<sigma>1)
  then show ?thesis
    by (cases r) (simp_all add: and_then_def assms)
qed
























subsection \<open>The claims about \<open>RankPruning\<close>\<close>

text \<open>
  C1. When a supplied \<open>noise_matrix\<close> or \<open>inverse_noise_matrix\<close> has trace at most 1,
  \<open>fit\<close> raises with the object, and so the wrapped classifier, exactly as it was and
  with no call made to any estimation, cross-validation, pruning or classifier
  collaborator. When the validation helper accepts the inputs, the exception is one of the
  two trace errors.
\<close>

theorem fit_trace_check_raises_first:
  assumes "trace_too_small noise_matrix \<or> trace_too_small inverse_noise_matrix"
  shows "\<exists>e. fit env self X s psx thresholds noise_matrix inverse_noise_matrix
               = (Inl e, self, [])
           \<and> (assert_inputs_are_valid env X s psx = None \<longrightarrow>
                e = Exception ''Trace(noise_matrix) must exceed 1.''
                \<or> e = Exception ''Trace(inverse_noise_matrix) must exceed 1.'')"
  using assms
  by (auto simp: fit_def fit_prefix_def and_then_def check_inputs_def split: option.splits)

theorem fit_trace_check_raises_first_witness:
  "trace_too_small (Some uniform_matrix)
   \<and> assert_inputs_are_valid (test_collaborators [''self'', ''X'', ''y'']) test_X test_s None
       = None
   \<and> fit (test_collaborators [''self'', ''X'', ''y'']) (test_self None) test_X test_s None None
         (Some uniform_matrix) None
       = (Inl (Exception ''Trace(noise_matrix) must exceed 1.''), test_self None, [])"
proof -
  have a: "trace_too_small (Some uniform_matrix)"
    by (simp add: trace_too_small_def uniform_matrix_def np_trace_def)
  have b: "assert_inputs_are_valid (test_collaborators [''self'', ''X'', ''y''])
             test_X test_s None = None"
    by (simp add: test_collaborators_def test_X_def test_s_def)
  have c: "\<not> trace_too_small None"
    by (simp add: trace_too_small_def)
  from a have "trace_too_small (Some uniform_matrix) \<or> trace_too_small None" by simp
  from fit_trace_check_raises_first [OF this, of "test_collaborators [''self'', ''X'', ''y'']"
         "test_self None" test_X test_s None None]
  obtain e where
    e: "fit (test_collaborators [''self'', ''X'', ''y'']) (test_self None) test_X test_s
          None None (Some uniform_matrix) None = (Inl e, test_self None, [])"
    and m: "e = Exception ''Trace(noise_matrix) must exceed 1.''
            \<or> e = Exception ''Trace(inverse_noise_matrix) must exceed 1.''"
    using b by auto
  have "fst (fit (test_collaborators [''self'', ''X'', ''y'']) (test_self None) test_X test_s
          None None (Some uniform_matrix) None)
          \<noteq> Inl (Exception ''Trace(inverse_noise_matrix) must exceed 1.'')"
    using a b by (simp add: fit_def fit_prefix_def and_then_def check_inputs_def)
  with e m have "e = Exception ''Trace(noise_matrix) must exceed 1.''" by auto
  with a b e show ?thesis by simp
qed






text \<open>
  C4. The code does not do what the claim says: for a wrapped classifier without a
  \<open>score\<close> method, \<open>score\<close> evaluates the unbound name \<open>X_val\<close> and raises
  \<open>NameError\<close> instead of returning the accuracy. Here on the classifier of the small
  dataset, after a fit.
\<close>

theorem score_without_scorer_raises_NameError:
  "score (test_collaborators [''self'', ''X'', ''y'']) unweighted_accuracy
       ((test_self None)\<lparr>self_clf := test_clf\<lparr>model := 1\<rparr>\<rparr>) test_X test_s None
     = Inl (NameError ''X_val'')"
  by (simp add: score_def test_clf_def lookup_name_def score_scope_def module_globals_def)

text \<open>
  C5. When the part of \<open>fit\<close> before the final fit has succeeded, the classifier's
  \<open>fit\<close> takes \<open>sample_weight\<close> and \<open>fit\<close> returns, and the labels are the class
  indices \<open>0, ..., K-1\<close> as the class documents, then \<open>self.sample_weight\<close> has one
  entry for each example that the noise mask does not flag, the entry of a surviving
  example with label \<open>k\<close> is \<open>1.0 / noise_matrix[k][k]\<close> for the noise matrix the
  object exposes, and these weights are what the classifier's \<open>fit\<close> is called with.
\<close>

theorem sample_weights_reciprocal_of_diagonal:
  assumes "fit_prefix env X s psx thresholds noise_matrix inverse_noise_matrix (self, [])
             = (Inr (X_pruned, s_pruned), self1, calls1)"
    and "accepts_sample_weight env (self_clf self1) = Inr True"
    and "fit env self X s psx thresholds noise_matrix inverse_noise_matrix
           = (Inr c, self', calls)"
    and "\<forall>l\<in>set s. 0 \<le> l \<and> l < int (length (np_unique s))"
  shows "\<exists>flags nm w.
           self_noise_mask self' = Some flags \<and> self_noise_matrix self' = Some nm
           \<and> self_sample_weight self' = Some w
           \<and> bool_index s (map Not flags) = Inr s_pruned
           \<and> length w = length (filter Not flags)
           \<and> (\<forall>i<length s_pruned.
                 w ! i = np_divide (Fin 1) (nm ! nat (s_pruned ! i) ! nat (s_pruned ! i)))
           \<and> calls = calls1 @ [Call_clf_fit X_pruned s_pruned (Some w)]"
proof -
  from fit_prefix_facts [OF assms(1)] obtain flags nm where
    K: "self_K self1 = Some (length (np_unique s))"
    and nm: "self_noise_matrix self1 = Some nm"
    and fl: "self_noise_mask self1 = Some flags"
    and bi: "bool_index s (map Not flags) = Inr s_pruned"
    by auto
  have ff: "final_fit env X_pruned s_pruned (self1, calls1) = (Inr c, self', calls)"
    using assms(1,3) by (simp add: fit_def and_then_Inr)
  from final_fit_Inr [OF ff] assms(2) K nm obtain w where
    wl: "weight_loop (Some nm) s_pruned [0..<length (np_unique s)]
           (np_ones (length s_pruned)) = (None, w)"
    and st: "self' = self1\<lparr>self_sample_weight := Some w, self_clf := c\<rparr>"
    and cl: "calls = calls1 @ [Call_clf_fit X_pruned s_pruned (Some w)]"
    by auto
  have "length (np_ones (length s_pruned)) = length s_pruned" by (simp add: np_ones_def)
  from weight_loop_None [OF wl this] have
    lw: "length w = length s_pruned"
    and wv: "\<And>i. i < length s_pruned \<Longrightarrow>
               w ! i = (if \<exists>k\<in>set [0..<length (np_unique s)]. s_pruned ! i = int k
                        then np_divide (Fin 1) (nm ! nat (s_pruned ! i) ! nat (s_pruned ! i))
                        else np_ones (length s_pruned) ! i)"
    by auto
  have inrange: "\<exists>k\<in>set [0..<length (np_unique s)]. s_pruned ! i = int k"
    if i: "i < length s_pruned" for i
  proof -
    from i bool_index_Inr(2) [OF bi] have "s_pruned ! i \<in> set s" by auto
    with assms(4) have "0 \<le> s_pruned ! i" "s_pruned ! i < int (length (np_unique s))" by auto
    then have "nat (s_pruned ! i) \<in> set [0..<length (np_unique s)]"
      and "s_pruned ! i = int (nat (s_pruned ! i))" by auto
    then show ?thesis by blast
  qed
  have "length s_pruned = length (filter (\<lambda>b. b) (map Not flags))"
    by (rule bool_index_Inr(3) [OF bi])
  also have "\<dots> = length (filter Not flags)"
    by (simp add: filter_map comp_def)
  finally have lf: "length w = length (filter Not flags)" using lw by simp
  show ?thesis
    apply (rule exI [where x = flags], rule exI [where x = nm], rule exI [where x = w])
    using st nm fl bi lf cl wv inrange by simp
qed

theorem sample_weights_reciprocal_of_diagonal_witness:
  "fit_prefix (test_collaborators [''self'', ''X'', ''y'', ''sample_weight'']) test_X test_s
       (Some test_psx) None (Some test_noise_matrix) None (test_self None, [])
     = (Inr ([[Fin 0], [Fin 1], [Fin 3]], [0, 1, 1]),
        (test_self None)
          \<lparr>self_K := Some 2, self_ps := Some [Fin (1/2), Fin (1/2)],
            self_py := Some [Fin (1/2), Fin (1/2)],
            self_noise_matrix := Some test_noise_matrix,
            self_inverse_noise_matrix := Some (transpose test_noise_matrix),
            self_noise_mask := Some [False, False, True, False]\<rparr>,
        [Call_compute_py_inv_noise_matrix, Call_get_noise_indices])
   \<and> accepts_sample_weight (test_collaborators [''self'', ''X'', ''y'', ''sample_weight''])
        test_clf = Inr True
   \<and> fit (test_collaborators [''self'', ''X'', ''y'', ''sample_weight'']) (test_self None)
       test_X test_s (Some test_psx) None (Some test_noise_matrix) None
     = (Inr (test_clf\<lparr>model := 1\<rparr>),
        (test_self None)
          \<lparr>self_clf := test_clf\<lparr>model := 1\<rparr>,
            self_K := Some 2, self_ps := Some [Fin (1/2), Fin (1/2)],
            self_py := Some [Fin (1/2), Fin (1/2)],
            self_noise_matrix := Some test_noise_matrix,
            self_inverse_noise_matrix := Some (transpose test_noise_matrix),
            self_noise_mask := Some [False, False, True, False],
            self_sample_weight := Some [Fin (5/4), Fin (10/9), Fin (10/9)]\<rparr>,
        [Call_compute_py_inv_noise_matrix, Call_get_noise_indices,
         Call_clf_fit [[Fin 0], [Fin 1], [Fin 3]] [0, 1, 1]
           (Some [Fin (5/4), Fin (10/9), Fin (10/9)])])
   \<and> list_all (\<lambda>l. 0 \<le> l \<and> l < int (length (np_unique test_s))) test_s
   \<and> length [Fin (5/4), Fin (10/9), Fin (10/9)] = length (filter Not [False, False, True, False])
   \<and> [Fin (5/4), Fin (10/9), Fin (10/9)] ! 0 = np_divide (Fin 1) (test_noise_matrix ! 0 ! 0)
   \<and> [Fin (5/4), Fin (10/9), Fin (10/9)] ! 1 = np_divide (Fin 1) (test_noise_matrix ! 1 ! 1)
   \<and> [Fin (5/4), Fin (10/9), Fin (10/9)] ! 2 = np_divide (Fin 1) (test_noise_matrix ! 1 ! 1)"
proof -
  let ?E = "test_collaborators [''self'', ''X'', ''y'', ''sample_weight'']"
  let ?self1 = "(test_self None)
          \<lparr>self_K := Some 2, self_ps := Some [Fin (1/2), Fin (1/2)],
            self_py := Some [Fin (1/2), Fin (1/2)],
            self_noise_matrix := Some test_noise_matrix,
            self_inverse_noise_matrix := Some (transpose test_noise_matrix),
            self_noise_mask := Some [False, False, True, False]\<rparr>"
  note pre = test_run_prefix [of "[''self'', ''X'', ''y'', ''sample_weight'']"]
  note run = test_run_weighted
  have c1: "self_clf ?self1 = test_clf" by (simp add: test_self_def)
  have acc: "accepts_sample_weight ?E test_clf = Inr True"
    by (simp add: accepts_sample_weight_def inspected_has_sample_weight_def
                  test_collaborators_def)
  have lab: "\<forall>l\<in>set test_s. 0 \<le> l \<and> l < int (length (np_unique test_s))"
    by (simp add: test_s_def np_unique_def)
  have acc1: "accepts_sample_weight ?E (self_clf ?self1) = Inr True"
    using acc c1 by simp
  from sample_weights_reciprocal_of_diagonal [OF pre acc1 run lab]
  obtain flags nm w where
    f: "flags = [False, False, True, False]" and n: "nm = test_noise_matrix"
    and w: "w = [Fin (5/4), Fin (10/9), Fin (10/9)]"
    and l: "length w = length (filter Not flags)"
    and v: "\<forall>i<length [0, 1, 1 :: int].
              w ! i = np_divide (Fin 1) (nm ! nat ([0, 1, 1] ! i) ! nat ([0, 1, 1] ! i))"
    by auto
  from v [rule_format, of 0] v [rule_format, of 1] v [rule_format, of 2]
  have "w ! 0 = np_divide (Fin 1) (nm ! 0 ! 0)" "w ! 1 = np_divide (Fin 1) (nm ! 1 ! 1)"
    "w ! 2 = np_divide (Fin 1) (nm ! 1 ! 1)" by simp_all
  with pre acc run lab l f n w show ?thesis
    by (simp add: list_all_iff)
qed

text \<open>
  C6. When the part of \<open>fit\<close> before the final fit has succeeded and the classifier's
  \<open>fit\<close> takes no \<open>sample_weight\<close> parameter, \<open>fit\<close> returns whatever the
  classifier's own \<open>fit\<close> returns when it is called without weights on the pruned
  training set; that call is the only call of the classifier's \<open>fit\<close> in the log, and
  the pruned set is the examples that the noise mask does not flag.
\<close>

theorem fit_degrades_without_sample_weight:
  assumes "fit_prefix env X s psx thresholds noise_matrix inverse_noise_matrix (self, [])
             = (Inr (X_pruned, s_pruned), self1, calls1)"
    and "fit_takes_no_sample_weight env (self_clf self1)"
    and "clf_fit env (self_clf self1) X_pruned s_pruned None = Inr c"
  shows "fit env self X s psx thresholds noise_matrix inverse_noise_matrix
           = (Inr c, self1\<lparr>self_clf := c\<rparr>, calls1 @ [Call_clf_fit X_pruned s_pruned None])
       \<and> filter is_clf_fit (calls1 @ [Call_clf_fit X_pruned s_pruned None])
           = [Call_clf_fit X_pruned s_pruned None]
       \<and> (\<exists>flags. self_noise_mask self1 = Some flags
             \<and> bool_index X (map Not flags) = Inr X_pruned
             \<and> bool_index s (map Not flags) = Inr s_pruned)"
proof -
  have "final_fit env X_pruned s_pruned (self1, calls1)
          = (Inr c, self1\<lparr>self_clf := c\<rparr>, calls1 @ [Call_clf_fit X_pruned s_pruned None])"
    using accepts_False [OF assms(2)] assms(3) by (simp add: final_fit_def)
  then have "fit env self X s psx thresholds noise_matrix inverse_noise_matrix
           = (Inr c, self1\<lparr>self_clf := c\<rparr>, calls1 @ [Call_clf_fit X_pruned s_pruned None])"
    using assms(1) by (simp add: fit_def and_then_Inr)
  with fit_prefix_facts(1,4) [OF assms(1)] show ?thesis by simp
qed

theorem fit_degrades_without_sample_weight_witness:
  "fit_prefix (test_collaborators [''self'', ''X'', ''y'']) test_X test_s None None
       (Some test_noise_matrix) (Some (transpose test_noise_matrix)) (test_self None, [])
     = (Inr (test_X, test_s),
        (test_self None)
          \<lparr>self_K := Some 2, self_ps := Some [Fin (1/2), Fin (1/2)],
            self_noise_matrix := Some test_noise_matrix,
            self_inverse_noise_matrix := Some (transpose test_noise_matrix),
            self_noise_mask := Some [False, False, False, False]\<rparr>,
        [Call_estimate_cv_predicted_probabilities (Some 0), Call_get_noise_indices])
   \<and> fit_takes_no_sample_weight (test_collaborators [''self'', ''X'', ''y'']) test_clf
   \<and> clf_fit (test_collaborators [''self'', ''X'', ''y'']) test_clf test_X test_s None
       = Inr (test_clf\<lparr>model := 1\<rparr>)
   \<and> fit (test_collaborators [''self'', ''X'', ''y'']) (test_self None)
       test_X test_s None None (Some test_noise_matrix) (Some (transpose test_noise_matrix))
     = (Inr (test_clf\<lparr>model := 1\<rparr>),
        (test_self None)
          \<lparr>self_K := Some 2, self_ps := Some [Fin (1/2), Fin (1/2)],
            self_noise_matrix := Some test_noise_matrix,
            self_inverse_noise_matrix := Some (transpose test_noise_matrix),
            self_noise_mask := Some [False, False, False, False],
            self_clf := test_clf\<lparr>model := 1\<rparr>\<rparr>,
        [Call_estimate_cv_predicted_probabilities (Some 0), Call_get_noise_indices,
         Call_clf_fit test_X test_s None])"
proof -
  let ?E = "test_collaborators [''self'', ''X'', ''y'']"
  let ?self1 = "(test_self None)
          \<lparr>self_K := Some 2, self_ps := Some [Fin (1/2), Fin (1/2)],
            self_noise_matrix := Some test_noise_matrix,
            self_inverse_noise_matrix := Some (transpose test_noise_matrix),
            self_noise_mask := Some [False, False, False, False]\<rparr>"
  note pre = test_prefix_both [of "[''self'', ''X'', ''y'']"]
  have c1: "self_clf ?self1 = test_clf" by (simp add: test_self_def)
  have lacks: "fit_takes_no_sample_weight ?E test_clf"
    by (simp add: fit_takes_no_sample_weight_def inspected_has_sample_weight_def
                  test_collaborators_def)
  have cf: "clf_fit ?E test_clf test_X test_s None = Inr (test_clf\<lparr>model := 1\<rparr>)"
    by (simp add: test_collaborators_def test_clf_def)
  have lacks1: "fit_takes_no_sample_weight ?E (self_clf ?self1)"
    using lacks c1 by simp
  have cf1: "clf_fit ?E (self_clf ?self1) test_X test_s None = Inr (test_clf\<lparr>model := 1\<rparr>)"
    using cf c1 by simp
  from fit_degrades_without_sample_weight [OF pre lacks1 cf1]
  have "fit ?E (test_self None) test_X test_s None None (Some test_noise_matrix)
          (Some (transpose test_noise_matrix))
        = (Inr (test_clf\<lparr>model := 1\<rparr>), ?self1\<lparr>self_clf := test_clf\<lparr>model := 1\<rparr>\<rparr>,
           [Call_estimate_cv_predicted_probabilities (Some 0), Call_get_noise_indices]
             @ [Call_clf_fit test_X test_s None])"
    by simp
  with pre lacks cf show ?thesis by simp
qed

text \<open>
  C7. With \<open>remove_noise_from_class\<close> as the spec describes it, a call of \<open>fit\<close> that
  returns on an object with \<open>pulearning = k\<close> has handed the noise matrix to that helper
  for a class \<open>k\<close> of the matrix, and exposes the helper's result: a matrix of the same
  shape in which every entry off the diagonal in row \<open>k\<close> and in column \<open>k\<close> (the flips
  into and out of class \<open>k\<close>) is zero and every other entry off the diagonal is as it
  was. When the columns of the matrix handed over are distributions, so are the columns
  of the matrix exposed, and its diagonal entry for class \<open>k\<close> is 1.
\<close>

theorem pulearning_zeroes_flips_of_noise_free_class:
  assumes "fit (env\<lparr>remove_noise_from_class := remove_noise_from_class_spec\<rparr>) self X s psx
               thresholds noise_matrix inverse_noise_matrix = (Inr c, self', calls)"
    and "self_pulearning self = Some k"
  shows "\<exists>m0 m. Call_remove_noise_from_class m0 k \<in> set calls
           \<and> self_noise_matrix self' = Some m
           \<and> 0 \<le> k \<and> k < int (length m0) \<and> length m = length m0
           \<and> (\<forall>i<length m. length (m ! i) = length (m0 ! i)
                 \<and> (\<forall>j<length (m ! i). i \<noteq> j \<longrightarrow>
                       m ! i ! j = (if int i = k \<or> int j = k then Fin 0 else m0 ! i ! j)))
           \<and> (columns_are_distributions m0 \<longrightarrow>
                 columns_are_distributions m \<and> m ! nat k ! nat k = Fin 1)"
proof -
  let ?env = "env\<lparr>remove_noise_from_class := remove_noise_from_class_spec\<rparr>"
  from assms(1) obtain p px self1 calls1 self2 calls2 flags Xp sp where
    r: "resolve_estimates ?env X s psx thresholds noise_matrix inverse_noise_matrix
          (self\<lparr>self_K := Some (length (np_unique s)), self_ps := Some p,
                self_confident_joint := None\<rparr>, []) = (Inr px, self1, calls1)"
    and pu: "apply_pulearning ?env (self1, calls1) = (Inr (), self2, calls2)"
    and ff: "final_fit ?env Xp sp (self2\<lparr>self_noise_mask := Some flags\<rparr>,
               calls2 @ [Call_get_noise_indices]) = (Inr c, self', calls)"
    by (rule fit_success)
  from kept_resolve_estimates(3) [OF r] assms(2) have "self_pulearning self1 = Some k"
    by simp
  with apply_pulearning_Inr [OF pu] obtain m0 m where
    rn: "remove_noise_from_class_spec m0 k = Inr m"
    and s2: "self2 = self1\<lparr>self_noise_matrix := Some m\<rparr>"
    and c2: "calls2 = calls1 @ [Call_remove_noise_from_class m0 k]"
    by auto
  note k = remove_noise_from_class_spec_Inr [OF rn]
  from final_fit_Inr [OF ff] c2 have mem: "Call_remove_noise_from_class m0 k \<in> set calls"
    by auto
  from fit_tail(7) [OF pu ff] s2 have nm: "self_noise_matrix self' = Some m" by simp
  have len: "length m = length m0"
    by (simp add: k(3) fill_diagonal_length zero_flips_length)
  have ent: "length (m ! i) = length (m0 ! i)
      \<and> (\<forall>j<length (m ! i). i \<noteq> j \<longrightarrow>
            m ! i ! j = (if int i = k \<or> int j = k then Fin 0 else m0 ! i ! j))"
    if "i < length m" for i
    using that len k(1)
    by (auto simp: k(3) fill_diagonal_entry zero_flips_entry zero_flips_length)
  have dist: "columns_are_distributions m \<and> m ! nat k ! nat k = Fin 1"
    if "columns_are_distributions m0"
    using remove_noise_keeps_distributions [OF that, of "nat k"] k(1,2) by (simp add: k(3))
  show ?thesis
    apply (rule exI [where x = m0], rule exI [where x = m])
    using mem nm k(1,2) len ent dist by simp
qed

theorem pulearning_zeroes_flips_of_noise_free_class_witness:
  "fit (test_collaborators [''self'', ''X'', ''y'']) (test_self (Some 0))
       test_X three_class_s (Some three_class_psx) None (Some three_class_noise_matrix) None
     = (Inr (test_clf\<lparr>model := 1\<rparr>),
        (test_self (Some 0))
          \<lparr>self_clf := test_clf\<lparr>model := 1\<rparr>,
            self_K := Some 3, self_ps := Some [Fin (1/4), Fin (1/2), Fin (1/4)],
            self_py := Some [Fin (1/4), Fin (1/2), Fin (1/4)],
            self_noise_matrix := Some noise_matrix_without_class_0,
            self_inverse_noise_matrix := Some (transpose three_class_noise_matrix),
            self_noise_mask := Some [False, False, False, True]\<rparr>,
        [Call_compute_py_inv_noise_matrix,
         Call_remove_noise_from_class three_class_noise_matrix 0,
         Call_get_noise_indices,
         Call_clf_fit [[Fin 0], [Fin 1], [Fin 2]] [0, 1, 2] None])
   \<and> remove_noise_from_class (test_collaborators [''self'', ''X'', ''y''])
       = remove_noise_from_class_spec
   \<and> self_pulearning (test_self (Some 0)) = Some 0
   \<and> columns_are_distributions three_class_noise_matrix
   \<and> columns_are_distributions noise_matrix_without_class_0
   \<and> noise_matrix_without_class_0 ! 0 ! 0 = Fin 1
   \<and> noise_matrix_without_class_0 ! 0 ! 1 = Fin 0
   \<and> noise_matrix_without_class_0 ! 0 ! 2 = Fin 0
   \<and> noise_matrix_without_class_0 ! 1 ! 0 = Fin 0
   \<and> noise_matrix_without_class_0 ! 2 ! 0 = Fin 0
   \<and> noise_matrix_without_class_0 ! 1 ! 2 = three_class_noise_matrix ! 1 ! 2"
proof -
  let ?E = "test_collaborators [''self'', ''X'', ''y'']"
  have E: "?E\<lparr>remove_noise_from_class := remove_noise_from_class_spec\<rparr> = ?E"
    by (simp add: test_collaborators_def)
  have rn: "remove_noise_from_class ?E = remove_noise_from_class_spec"
    by (simp add: test_collaborators_def)
  note run = test_run_pulearning
  have pu: "self_pulearning (test_self (Some 0)) = Some 0"
    by (simp add: test_self_def)
  have d0: "columns_are_distributions three_class_noise_matrix"
    by (simp add: columns_are_distributions_def column_def np_sum_def
                  three_class_noise_matrix_def upt_rec)
  from pulearning_zeroes_flips_of_noise_free_class [of ?E, unfolded E, OF run pu]
  obtain m0 m where
    m0: "Call_remove_noise_from_class m0 0 \<in> set
           [Call_compute_py_inv_noise_matrix,
            Call_remove_noise_from_class three_class_noise_matrix 0,
            Call_get_noise_indices,
            Call_clf_fit [[Fin 0], [Fin 1], [Fin 2]] [0, 1, 2] None]"
    and m: "m = noise_matrix_without_class_0"
    and z: "\<forall>i<length m. length (m ! i) = length (m0 ! i)
              \<and> (\<forall>j<length (m ! i). i \<noteq> j \<longrightarrow>
                    m ! i ! j = (if int i = 0 \<or> int j = 0 then Fin 0 else m0 ! i ! j))"
    and d: "columns_are_distributions m0 \<longrightarrow>
              columns_are_distributions m \<and> m ! nat 0 ! nat 0 = Fin 1"
    by auto
  from m0 have m0': "m0 = three_class_noise_matrix" by simp
  have l: "length noise_matrix_without_class_0 = 3"
    "length (noise_matrix_without_class_0 ! 0) = 3"
    "length (noise_matrix_without_class_0 ! 1) = 3"
    "length (noise_matrix_without_class_0 ! 2) = 3"
    by (simp_all add: noise_matrix_without_class_0_def)
  from d d0 m m0' have "columns_are_distributions noise_matrix_without_class_0"
    and "noise_matrix_without_class_0 ! 0 ! 0 = Fin 1" by simp_all
  moreover have i: "0 < length m" "1 < length m" "2 < length m"
    using m l by simp_all
  note r0 = z [rule_format, OF i(1), THEN conjunct2, rule_format]
    and r1 = z [rule_format, OF i(2), THEN conjunct2, rule_format]
    and r2 = z [rule_format, OF i(3), THEN conjunct2, rule_format]
  have ne: "noise_matrix_without_class_0 ! Suc 0 \<noteq> []"
    by (simp add: noise_matrix_without_class_0_def)
  from r0 [of 1] r0 [of 2] r1 [of 0] r2 [of 0] r1 [of 2] m m0' l ne
  have "noise_matrix_without_class_0 ! 0 ! 1 = Fin 0"
    "noise_matrix_without_class_0 ! 0 ! 2 = Fin 0"
    "noise_matrix_without_class_0 ! 1 ! 0 = Fin 0"
    "noise_matrix_without_class_0 ! 2 ! 0 = Fin 0"
    "noise_matrix_without_class_0 ! 1 ! 2 = three_class_noise_matrix ! 1 ! 2"
    by simp_all
  ultimately show ?thesis using run rn pu d0 by simp
qed

end
